theory Spec2Isabelle
  imports Complex_Main "HOL-Library.AList" "HOL-Library.Multiset" "HOL-Library.Product_Lexorder"
begin

section \<open>The spending calculator (spend.py)\<close>

text \<open>
  The program is one class, \<open>SpendingCalculator\<close>, whose methods read lines from the
  console, update the fields of the object and print reports. The embedding keeps the
  fields as a record, passes the state explicitly, and gives every method the lines still
  waiting on standard input as a \<open>string list\<close>: \<open>input()\<close> takes the head of the list,
  and raises \<open>EOFError\<close> on the empty list. What a method prints is left out, except for
  the two reports (\<open>display_status\<close>, \<open>update_summary\<close>), which are returned as values.

  Amounts are Python floats in the source. A float is modelled as the real number it
  stands for, and every addition and subtraction of the source rounds its exact result
  to the nearest double (\<open>fadd\<close>, \<open>fsub\<close> below); infinities, NaN and the bounds of the
  exponent are outside the model. Strings are lists of 8-bit characters, so the
  character tests below are the ASCII part of Python's.

  Three library functions are taken as parameters rather than modelled: \<open>float_of\<close> is
  \<open>float(str)\<close> (\<open>None\<close> for \<open>ValueError\<close>), \<open>strptime\<close> is
  \<open>datetime.strptime(str, "%Y-%m-%d")\<close> (\<open>None\<close> for \<open>ValueError\<close>), and \<open>now\<close> is the
  value \<open>datetime.now()\<close> returns during the call.
\<close>

subsection \<open>Errors\<close>

datatype error = EOFError | OverflowError | ValueError

subsection \<open>Strings\<close>

definition isdigit_char :: "char \<Rightarrow> bool" where
  "isdigit_char c = (48 \<le> (of_char c :: nat) \<and> (of_char c :: nat) \<le> 57)"

definition isdigit :: "string \<Rightarrow> bool" where
  \<comment> \<open>\<open>str.isdigit()\<close>: at least one character, and all of them digits.\<close>
  "isdigit s = (s \<noteq> [] \<and> list_all isdigit_char s)"

definition int_max_str_digits :: nat where
  \<comment> \<open>\<open>sys.int_info.default_max_str_digits\<close>\<close>
  "int_max_str_digits = 4300"

definition int_of_str :: "string \<Rightarrow> error + int" where
  \<comment> \<open>\<open>int(s)\<close> on a string of digits: a string of more digits than the limit is a
      \<open>ValueError\<close>.\<close>
  "int_of_str s =
     (if length s > int_max_str_digits then Inl ValueError
      else Inr (foldl (\<lambda>n c. 10 * n + (int (of_char c) - 48)) 0 s))"

definition isupper_char :: "char \<Rightarrow> bool" where
  "isupper_char c = (65 \<le> (of_char c :: nat) \<and> (of_char c :: nat) \<le> 90)"

definition islower_char :: "char \<Rightarrow> bool" where
  "islower_char c = (97 \<le> (of_char c :: nat) \<and> (of_char c :: nat) \<le> 122)"

definition lower_char :: "char \<Rightarrow> char" where
  "lower_char c = (if isupper_char c then char_of ((of_char c :: nat) + 32) else c)"

definition upper_char :: "char \<Rightarrow> char" where
  "upper_char c = (if islower_char c then char_of ((of_char c :: nat) - 32) else c)"

definition lower :: "string \<Rightarrow> string" where
  \<comment> \<open>\<open>str.lower()\<close>\<close>
  "lower s = map lower_char s"

fun title_from :: "bool \<Rightarrow> string \<Rightarrow> string" where
  "title_from prev [] = []"
| "title_from prev (c # cs) =
     (if islower_char c \<or> isupper_char c
      then (if prev then lower_char c else upper_char c) # title_from True cs
      else c # title_from False cs)"

definition title :: "string \<Rightarrow> string" where
  \<comment> \<open>\<open>str.title()\<close>: a letter after a letter is lowered, any other letter is raised.\<close>
  "title s = title_from False s"

subsection \<open>Floating-point arithmetic\<close>

text \<open>
  A double has 53 significant bits. The sum (or difference) of two doubles is the exact
  sum rounded to 53 significant bits, to the nearest such number and, half-way between
  two, to the one whose last bit is 0. \<open>exponent x\<close> is the integer \<open>e\<close> with
  \<open>2^e \<le> |x| < 2^(e+1)\<close>, so that \<open>x / 2^(e - 52)\<close> has 53 bits before the point.
\<close>

function bit_length :: "nat \<Rightarrow> nat" where
  "bit_length n = (if n = 0 then 0 else Suc (bit_length (n div 2)))"
  by pat_completeness auto
termination
  by (relation "measure (\<lambda>n. n)") auto

declare bit_length.simps [simp del]

definition pow2 :: "int \<Rightarrow> real" where
  "pow2 k = (if 0 \<le> k then 2 ^ nat k else 1 / 2 ^ nat (- k))"

definition exponent :: "real \<Rightarrow> int" where
  "exponent x =
     (if 1 \<le> \<bar>x\<bar> then int (bit_length (nat \<lfloor>\<bar>x\<bar>\<rfloor>)) - 1
      else - int (bit_length (nat (\<lceil>1 / \<bar>x\<bar>\<rceil> - 1))))"

definition round_half_even :: "real \<Rightarrow> int" where
  "round_half_even q =
     (let f = \<lfloor>q\<rfloor>; d = q - of_int f
      in if d < 1 / 2 then f else if 1 / 2 < d then f + 1 else if even f then f else f + 1)"

definition round_double :: "real \<Rightarrow> real" where
  "round_double x =
     (if x = 0 then 0
      else (let k = exponent x - 52 in of_int (round_half_even (x / pow2 k)) * pow2 k))"

definition fadd :: "real \<Rightarrow> real \<Rightarrow> real" where
  \<comment> \<open>\<open>x + y\<close> on floats\<close>
  "fadd x y = round_double (x + y)"

definition fsub :: "real \<Rightarrow> real \<Rightarrow> real" where
  \<comment> \<open>\<open>x - y\<close> on floats\<close>
  "fsub x y = round_double (x - y)"

subsection \<open>Dates and times\<close>

text \<open>
  A naive \<open>datetime\<close> object: its seven fields. Python compares two of them field by
  field in this order, which is the lexicographic order of \<open>dt_key\<close>.
\<close>

record datetime =
  year :: int
  month :: int
  day :: int
  hour :: int
  minute :: int
  second :: int
  microsecond :: int

definition dt_key :: "datetime \<Rightarrow> int \<times> int \<times> int \<times> int \<times> int \<times> int \<times> int" where
  "dt_key d = (year d, month d, day d, hour d, minute d, second d, microsecond d)"

definition dt_le :: "datetime \<Rightarrow> datetime \<Rightarrow> bool" where
  "dt_le a b = (dt_key a \<le> dt_key b)"

text \<open>The proleptic Gregorian ordinal of a date, as \<open>date.toordinal()\<close> computes it.\<close>

definition is_leap :: "int \<Rightarrow> bool" where
  "is_leap y = (y mod 4 = 0 \<and> (y mod 100 \<noteq> 0 \<or> y mod 400 = 0))"

definition days_before_year :: "int \<Rightarrow> int" where
  "days_before_year y = (y - 1) * 365 + (y - 1) div 4 - (y - 1) div 100 + (y - 1) div 400"

definition days_in_month_tab :: "int list" where
  "days_in_month_tab = [31, 28, 31, 30, 31, 30, 31, 31, 30, 31, 30, 31]"

definition days_in_month :: "int \<Rightarrow> int \<Rightarrow> int" where
  "days_in_month y m =
     (if m = 2 \<and> is_leap y then 29 else days_in_month_tab ! nat (m - 1))"

definition days_before_month :: "int \<Rightarrow> int \<Rightarrow> int" where
  "days_before_month y m =
     sum_list (take (nat (m - 1)) days_in_month_tab) + (if 2 < m \<and> is_leap y then 1 else 0)"

definition ymd2ord :: "int \<Rightarrow> int \<Rightarrow> int \<Rightarrow> int" where
  "ymd2ord y m d = days_before_year y + days_before_month y m + d"

definition toordinal :: "datetime \<Rightarrow> int" where
  "toordinal d = ymd2ord (year d) (month d) (day d)"

definition weekday :: "datetime \<Rightarrow> int" where
  \<comment> \<open>Monday is 0, Sunday is 6.\<close>
  "weekday d = (toordinal d + 6) mod 7"

definition ord2ymd :: "int \<Rightarrow> int \<times> int \<times> int" where
  \<comment> \<open>\<open>date.fromordinal\<close>: the inverse of \<open>ymd2ord\<close>, by 400-, 100-, 4- and 1-year cycles.\<close>
  "ord2ymd n0 =
     (let n = n0 - 1;
          n400 = n div 146097; n = n mod 146097;
          n100 = n div 36524; n = n mod 36524;
          n4 = n div 1461; n = n mod 1461;
          n1 = n div 365; n = n mod 365;
          y = n400 * 400 + 1 + n100 * 100 + n4 * 4 + n1
      in if n1 = 4 \<or> n100 = 4 then (y - 1, 12, 31)
         else
           (let leapyear = (n1 = 3 \<and> (n4 \<noteq> 24 \<or> n100 = 3));
                m = (n + 50) div 32;
                preceding = sum_list (take (nat (m - 1)) days_in_month_tab)
                            + (if 2 < m \<and> leapyear then 1 else 0)
            in if n < preceding
               then (let m' = m - 1;
                         preceding' = preceding - (days_in_month_tab ! nat (m' - 1)
                                        + (if m' = 2 \<and> leapyear then 1 else 0))
                     in (y, m', n - preceding' + 1))
               else (y, m, n - preceding + 1)))"

definition sub_days :: "datetime \<Rightarrow> int \<Rightarrow> error + datetime" where
  \<comment> \<open>\<open>d - timedelta(days=k)\<close>: the time of day stays, the date moves back \<open>k\<close> days;
      a date before year 1 is an \<open>OverflowError\<close>.\<close>
  "sub_days d k =
     (let n = toordinal d - k
      in if n < 1 then Inl OverflowError
         else (case ord2ymd n of (y, m, dd) \<Rightarrow> Inr (d\<lparr>year := y, month := m, day := dd\<rparr>)))"

definition midnight :: "datetime \<Rightarrow> datetime" where
  \<comment> \<open>\<open>d.replace(hour=0, minute=0, second=0, microsecond=0)\<close>\<close>
  "midnight d = d\<lparr>hour := 0, minute := 0, second := 0, microsecond := 0\<rparr>"

definition days_since :: "datetime \<Rightarrow> datetime \<Rightarrow> int" where
  \<comment> \<open>\<open>(a - b).days\<close> for \<open>b\<close> at midnight: whole days, rounded down.\<close>
  "days_since a b = toordinal a - toordinal b"

definition epoch_monday :: datetime where
  \<comment> \<open>\<open>datetime.datetime(1970, 1, 5)\<close>\<close>
  "epoch_monday = \<lparr>year = 1970, month = 1, day = 5, hour = 0, minute = 0, second = 0,
                   microsecond = 0\<rparr>"

subsection \<open>The state\<close>

type_synonym expense = "datetime \<times> string \<times> real"
type_synonym transaction = "string \<times> datetime \<times> string \<times> real"

text \<open>
  A Python \<open>dict\<close> keeps its keys in insertion order; it is an association list with
  \<open>AList.update\<close> for \<open>d[k] = v\<close> and \<open>AList.delete\<close> for \<open>del d[k]\<close>.
\<close>

type_synonym ('k, 'v) dict = "('k \<times> 'v) list"

definition dict_get :: "('k, 'v) dict \<Rightarrow> 'k \<Rightarrow> 'v \<Rightarrow> 'v" where
  \<comment> \<open>\<open>d.get(k, default)\<close>\<close>
  "dict_get d k dflt = (case map_of d k of None \<Rightarrow> dflt | Some v \<Rightarrow> v)"

record state =
  expenses :: "expense list"
  categories :: "string list"
  balance :: real
  transaction_history :: "transaction list"
  history_length :: nat
  budget :: real
  budget_interval :: string
  data_file :: string
  budget_intervals :: "string list"
  category_budgets :: "(string, real) dict"

definition default_categories :: "string list" where
  "default_categories =
     [''Food'', ''Housing'', ''Transportation'', ''Entertainment'', ''Utilities'', ''Other'']"

definition default_state :: state where
  \<comment> \<open>The assignments of \<open>__init__\<close>, before \<open>load_data\<close>.\<close>
  "default_state =
     \<lparr>expenses = [], categories = default_categories, balance = 0,
      transaction_history = [], history_length = 5, budget = 0,
      budget_interval = ''Month'', data_file = ''spending_data.pkl'',
      budget_intervals = [''Day'', ''Week'', ''Bi-Weekly'', ''Month'', ''Year''],
      category_budgets = []\<rparr>"

fun initialize_category_budgets_loop ::
  "string list \<Rightarrow> (string, real) dict \<Rightarrow> (string, real) dict" where
  "initialize_category_budgets_loop [] cb = cb"
| "initialize_category_budgets_loop (c # cs) cb =
     initialize_category_budgets_loop cs
       (if c \<notin> fst ` set cb then AList.update c 0 cb else cb)"

definition initialize_category_budgets :: "state \<Rightarrow> state" where
  "initialize_category_budgets s =
     s\<lparr>category_budgets := initialize_category_budgets_loop (categories s) (category_budgets s)\<rparr>"

subsection \<open>Persistence\<close>

text \<open>
  \<open>save_data\<close> pickles a dictionary of seven entries into the file \<open>data_file\<close>, and
  \<open>load_data\<close> reads each entry back with \<open>data.get(key, default)\<close>. A pickled
  dictionary is a record of optional entries (a missing key is \<open>None\<close>); a file that
  \<open>pickle.load\<close> rejects is \<open>Corrupt\<close>. Pickling followed by unpickling returns the value
  it was given. The file system maps a path to the content of the file there.
\<close>

record pickled =
  p_expenses :: "expense list option"
  p_categories :: "string list option"
  p_balance :: "real option"
  p_transaction_history :: "transaction list option"
  p_budget :: "real option"
  p_budget_interval :: "string option"
  p_category_budgets :: "(string, real) dict option"

datatype file_content = Pickled pickled | Corrupt

type_synonym disk = "string \<Rightarrow> file_content option"

datatype write_outcome = WriteOk | OpenFails | DumpFails

definition load_data :: "disk \<Rightarrow> state \<Rightarrow> state" where
  "load_data d s =
     (case d (data_file s) of
        None \<Rightarrow> s
      | Some Corrupt \<Rightarrow> s
      | Some (Pickled data) \<Rightarrow>
          s\<lparr>expenses := (case p_expenses data of None \<Rightarrow> [] | Some v \<Rightarrow> v),
            categories := (case p_categories data of None \<Rightarrow> default_categories | Some v \<Rightarrow> v),
            balance := (case p_balance data of None \<Rightarrow> 0 | Some v \<Rightarrow> v),
            transaction_history :=
              (case p_transaction_history data of None \<Rightarrow> [] | Some v \<Rightarrow> v),
            budget := (case p_budget data of None \<Rightarrow> 0 | Some v \<Rightarrow> v),
            budget_interval :=
              (case p_budget_interval data of None \<Rightarrow> ''Month'' | Some v \<Rightarrow> v),
            category_budgets :=
              (case p_category_budgets data of None \<Rightarrow> [] | Some v \<Rightarrow> v)\<rparr>)"

definition save_data :: "write_outcome \<Rightarrow> state \<Rightarrow> disk \<Rightarrow> disk" where
  \<comment> \<open>The write either succeeds, or \<open>open\<close> raises and the file stays as it was, or
      \<open>pickle.dump\<close> raises on the file \<open>open\<close> has already truncated. Both exceptions are
      caught and printed.\<close>
  "save_data w s d =
     (case w of
        WriteOk \<Rightarrow>
          d(data_file s \<mapsto> Pickled
             \<lparr>p_expenses = Some (expenses s), p_categories = Some (categories s),
              p_balance = Some (balance s),
              p_transaction_history = Some (transaction_history s),
              p_budget = Some (budget s), p_budget_interval = Some (budget_interval s),
              p_category_budgets = Some (category_budgets s)\<rparr>)
      | OpenFails \<Rightarrow> d
      | DumpFails \<Rightarrow> d(data_file s \<mapsto> Corrupt))"

definition init :: "disk \<Rightarrow> state" where
  \<comment> \<open>\<open>__init__\<close>\<close>
  "init d = initialize_category_budgets (load_data d default_state)"

subsection \<open>Prompts\<close>

text \<open>
  Each prompt is a \<open>while True\<close> loop around \<open>input()\<close>. It returns the value read
  (\<open>None\<close> when the method returns without one) and the lines left. The category
  prompt catches \<open>EOFError\<close> only, so the \<open>ValueError\<close> of \<open>int\<close> leaves the method.
\<close>

fun amount_prompt :: "(string \<Rightarrow> real option) \<Rightarrow> string list \<Rightarrow> real option \<times> string list" where
  "amount_prompt float_of [] = (None, [])"
| "amount_prompt float_of (l # ls) =
     (case float_of l of
        None \<Rightarrow> amount_prompt float_of ls
      | Some amount \<Rightarrow> if amount \<le> 0 then amount_prompt float_of ls else (Some amount, ls))"

fun category_prompt ::
  "string list \<Rightarrow> string list \<Rightarrow> error + (string option \<times> string list)" where
  \<comment> \<open>The same loop stands in \<open>add_expense\<close> and in \<open>set_category_budget\<close>.\<close>
  "category_prompt cats [] = Inr (None, [])"
| "category_prompt cats (category_input # ls) =
     (if category_input = [] then Inr (None, ls)
      else if isdigit category_input then
        (case int_of_str category_input of
           Inl e \<Rightarrow> Inl e
         | Inr n \<Rightarrow>
             (let category_index = n - 1
              in if 0 \<le> category_index \<and> category_index < int (length cats)
                 then Inr (Some (cats ! nat category_index), ls)
                 else category_prompt cats ls))
      else if category_input \<in> set cats then Inr (Some category_input, ls)
      else category_prompt cats ls)"

fun date_prompt ::
  "(string \<Rightarrow> datetime option) \<Rightarrow> datetime \<Rightarrow> string list \<Rightarrow> datetime option \<times> string list" where
  "date_prompt strptime now [] = (None, [])"
| "date_prompt strptime now (date_str # ls) =
     (if date_str = [] then (Some now, ls)
      else (case strptime date_str of
              None \<Rightarrow> date_prompt strptime now ls
            | Some date \<Rightarrow> (Some date, ls)))"

subsection \<open>Expenses and deposits\<close>

definition trim_history :: "nat \<Rightarrow> transaction list \<Rightarrow> transaction list" where
  \<comment> \<open>\<open>if len(h) > history_length: h.pop(0)\<close>, after the append.\<close>
  "trim_history n h = (if length h > n then tl h else h)"

definition add_expense ::
  "(string \<Rightarrow> real option) \<Rightarrow> (string \<Rightarrow> datetime option) \<Rightarrow> datetime \<Rightarrow> string list \<Rightarrow> state
   \<Rightarrow> error + (state \<times> string list)" where
  "add_expense float_of strptime now ins s =
     (case amount_prompt float_of ins of
        (None, r1) \<Rightarrow> Inr (s, r1)
      | (Some amount, r1) \<Rightarrow>
          (case category_prompt (categories s) r1 of
             Inl e \<Rightarrow> Inl e
           | Inr (None, r2) \<Rightarrow> Inr (s, r2)
           | Inr (Some category, r2) \<Rightarrow>
               (case date_prompt strptime now r2 of
                  (None, r3) \<Rightarrow> Inr (s, r3)
                | (Some date, r3) \<Rightarrow>
                    Inr (s\<lparr>expenses := expenses s @ [(date, category, amount)],
                           balance := fsub (balance s) amount,
                           transaction_history :=
                             trim_history (history_length s)
                               (transaction_history s
                                  @ [(''Expense'', date, category, amount)])\<rparr>,
                         r3))))"

fun add_money ::
  "(string \<Rightarrow> real option) \<Rightarrow> datetime \<Rightarrow> string list \<Rightarrow> state \<Rightarrow> state \<times> string list" where
  "add_money float_of now [] s = (s, [])"
| "add_money float_of now (l # ls) s =
     (case float_of l of
        None \<Rightarrow> add_money float_of now ls s
      | Some amount \<Rightarrow>
          if amount \<le> 0 then add_money float_of now ls s
          else (s\<lparr>balance := fadd (balance s) amount,
                  transaction_history :=
                    trim_history (history_length s)
                      (transaction_history s @ [(''Deposit'', now, ''Deposit'', amount)])\<rparr>,
                ls))"

subsection \<open>The summary\<close>

record summary_report =
  sm_lines :: "expense list"
  sm_category_totals :: "(string, real) dict"
  sm_total_spending :: real

fun summary_loop ::
  "expense list \<Rightarrow> real \<Rightarrow> (string, real) dict \<Rightarrow> real \<times> (string, real) dict" where
  "summary_loop [] total_spending category_totals = (total_spending, category_totals)"
| "summary_loop ((date, category, amount) # es) total_spending category_totals =
     summary_loop es (fadd total_spending amount)
       (AList.update category (fadd (dict_get category_totals category 0) amount)
          category_totals)"

definition update_summary :: "state \<Rightarrow> summary_report option" where
  \<comment> \<open>\<open>None\<close> is "No expenses recorded yet."; \<open>sorted\<close> is a stable sort.\<close>
  "update_summary s =
     (if expenses s = [] then None
      else (let sorted_expenses = sort_key (\<lambda>x. dt_key (fst x)) (expenses s)
            in case summary_loop sorted_expenses 0 [] of
                 (total_spending, category_totals) \<Rightarrow>
                   Some \<lparr>sm_lines = sorted_expenses, sm_category_totals = category_totals,
                         sm_total_spending = total_spending\<rparr>))"

subsection \<open>Categories\<close>

fun add_category :: "string list \<Rightarrow> state \<Rightarrow> state \<times> string list" where
  "add_category [] s = (s, [])"
| "add_category (new_category # ls) s =
     (if new_category = [] then (s, ls)
      else if new_category \<in> set (categories s) then add_category ls s
      else (s\<lparr>categories := categories s @ [new_category],
              category_budgets := AList.update new_category 0 (category_budgets s)\<rparr>, ls))"

fun delete_category :: "string list \<Rightarrow> state \<Rightarrow> state \<times> string list" where
  "delete_category [] s = (s, [])"
| "delete_category (category_to_delete # ls) s =
     (if category_to_delete = [] then (s, ls)
      else if category_to_delete \<notin> set (categories s) then delete_category ls s
      else (s\<lparr>categories := remove1 category_to_delete (categories s),
              category_budgets :=
                (if category_to_delete \<in> fst ` set (category_budgets s)
                 then AList.delete category_to_delete (category_budgets s)
                 else category_budgets s)\<rparr>, ls))"

subsection \<open>Budgets\<close>

fun set_budget :: "(string \<Rightarrow> real option) \<Rightarrow> string list \<Rightarrow> state \<Rightarrow> state \<times> string list" where
  "set_budget float_of [] s = (s, [])"
| "set_budget float_of (l # ls) s =
     (case float_of l of
        None \<Rightarrow> set_budget float_of ls s
      | Some b \<Rightarrow> if b \<le> 0 then set_budget float_of ls s else (s\<lparr>budget := b\<rparr>, ls))"

definition set_category_budget ::
  "(string \<Rightarrow> real option) \<Rightarrow> string list \<Rightarrow> state \<Rightarrow> error + (state \<times> string list)" where
  "set_category_budget float_of ins s =
     (case category_prompt (categories s) ins of
        Inl e \<Rightarrow> Inl e
      | Inr (None, r1) \<Rightarrow> Inr (s, r1)
      | Inr (Some category, r1) \<Rightarrow>
          (case amount_prompt float_of r1 of
             (None, r2) \<Rightarrow> Inr (s, r2)
           | (Some b, r2) \<Rightarrow>
               Inr (s\<lparr>category_budgets := AList.update category b (category_budgets s)\<rparr>,
                    r2)))"

fun set_budget_interval :: "string list \<Rightarrow> state \<Rightarrow> state \<times> string list" where
  "set_budget_interval [] s = (s, [])"
| "set_budget_interval (l # ls) s =
     (let interval = title l
      in if interval \<notin> set (budget_intervals s) then set_budget_interval ls s
         else (s\<lparr>budget_interval := interval\<rparr>, ls))"

subsection \<open>The status display\<close>

text \<open>
  \<open>display_status\<close> prints the balance, then (when a total budget is set) the budget with
  the spending inside the current interval and what remains, then one line for every
  category budget, then the recent transactions, newest first. The report holds the
  numbers printed; \<open>st_spending\<close> is \<open>None\<close> when no spending line is printed.
\<close>

record status_report =
  st_balance :: real
  st_total_budget :: "(string \<times> real) option"
  st_spending :: "(real \<times> real) option"
  st_category_lines :: "(string \<times> real \<times> real \<times> real) list"
  st_transactions :: "transaction list"

definition spent_between :: "datetime \<Rightarrow> datetime \<Rightarrow> expense list \<Rightarrow> real" where
  \<comment> \<open>\<open>sum(expense[2] for expense in self.expenses if start <= expense[0] <= now)\<close>;
      \<open>sum\<close> starts at 0 and adds the floats one after the other (CPython up to 3.11;
      later versions carry a correction term along).\<close>
  "spent_between start now es =
     foldl fadd 0 (map (\<lambda>expense. snd (snd expense))
       (filter (\<lambda>expense. dt_le start (fst expense) \<and> dt_le (fst expense) now) es))"

definition interval_start :: "string \<Rightarrow> datetime \<Rightarrow> error + datetime option" where
  \<comment> \<open>The start of the window of each branch of \<open>display_status\<close>; \<open>None\<close> when no
      branch matches the interval.\<close>
  "interval_start interval now =
     (if lower interval = ''month'' then Inr (Some (now\<lparr>day := 1\<rparr>))
      else if lower interval = ''year'' then Inr (Some (now\<lparr>month := 1, day := 1\<rparr>))
      else if lower interval = ''day'' then Inr (Some (midnight now))
      else if lower interval = ''week'' then
        (case sub_days now (weekday now) of
           Inl e \<Rightarrow> Inl e
         | Inr week_start \<Rightarrow> Inr (Some (midnight week_start)))
      else if lower interval = ''bi-weekly'' then
        (let days_since_monday = weekday now;
             weeks_since_start = days_since now epoch_monday div 7;
             days_since_monday =
               (if weeks_since_start mod 2 \<noteq> 0 then days_since_monday + 7
                else days_since_monday)
         in case sub_days now days_since_monday of
              Inl e \<Rightarrow> Inl e
            | Inr bi_weekly_start \<Rightarrow> Inr (Some (midnight bi_weekly_start)))
      else Inr None)"

fun category_expenses_loop :: "expense list \<Rightarrow> (string, real) dict \<Rightarrow> (string, real) dict" where
  "category_expenses_loop [] category_expenses = category_expenses"
| "category_expenses_loop (expense # es) category_expenses =
     (let category = fst (snd expense); amount = snd (snd expense)
      in category_expenses_loop es
           (AList.update category (fadd (dict_get category_expenses category 0) amount)
              category_expenses))"

definition category_lines :: "state \<Rightarrow> (string \<times> real \<times> real \<times> real) list" where
  "category_lines s =
     (if category_budgets s \<noteq> [] then
        (let category_expenses = category_expenses_loop (expenses s) []
         in map (\<lambda>(category, b).
                   (let expense = dict_get category_expenses category 0
                    in (category, b, expense, fsub b expense)))
              (category_budgets s))
      else [])"

definition display_status :: "datetime \<Rightarrow> state \<Rightarrow> error + status_report" where
  "display_status now s =
     (let rest = \<lparr>st_balance = balance s, st_total_budget = None, st_spending = None,
                  st_category_lines = category_lines s,
                  st_transactions = rev (transaction_history s)\<rparr>
      in if budget s > 0 then
           (case interval_start (budget_interval s) now of
              Inl e \<Rightarrow> Inl e
            | Inr None \<Rightarrow> Inr (rest\<lparr>st_total_budget := Some (budget_interval s, budget s)\<rparr>)
            | Inr (Some start) \<Rightarrow>
                (let spending = spent_between start now (expenses s)
                 in Inr (rest\<lparr>st_total_budget := Some (budget_interval s, budget s),
                              st_spending := Some (spending, fsub (budget s) spending)\<rparr>)))
         else Inr rest)"

subsection \<open>Clearing all data\<close>

fun clear_all_data ::
  "write_outcome \<Rightarrow> string list \<Rightarrow> state \<Rightarrow> disk \<Rightarrow> error + (state \<times> disk \<times> string list)" where
  \<comment> \<open>This \<open>input()\<close> stands outside any \<open>try\<close>: the end of the input is an \<open>EOFError\<close>
      of the method.\<close>
  "clear_all_data w [] s d = Inl EOFError"
| "clear_all_data w (l # ls) s d =
     (let confirmation = lower l
      in if confirmation = ''yes'' then
           (let s' = s\<lparr>expenses := [], balance := 0, transaction_history := [], budget := 0,
                      category_budgets := []\<rparr>
            in Inr (s', save_data w s' d, ls))
         else if confirmation = ''no'' then Inr (s, d, ls)
         else clear_all_data w ls s d)"

subsection \<open>Runs of the program\<close>

text \<open>
  The menus of \<open>run\<close>, \<open>budget_menu\<close> and \<open>category_menu\<close> call the methods above in any
  order the user chooses, each on whatever lines the user types and at whatever time the
  clock shows. A process starts with \<open>__init__\<close> on the file system it finds, which at
  the first run has no data file; choosing \<open>x\<close> saves and ends the process, and the next
  process starts from the file system the last one left. A call that raises ends the
  process and leads to no further state. \<open>reachable\<close> is the set of pairs of a state
  and a file system that such runs pass through.
\<close>

definition no_file :: disk where
  "no_file = (\<lambda>path. None)"

inductive reachable :: "state \<times> disk \<Rightarrow> bool" where
  r_first: "reachable (init no_file, no_file)"
| r_start: "reachable (s, d) \<Longrightarrow> reachable (init d, d)"
| r_exit: "reachable (s, d) \<Longrightarrow> reachable (s, save_data w s d)"
| r_add_expense:
    "reachable (s, d) \<Longrightarrow> add_expense float_of strptime now ins s = Inr (s', rest)
     \<Longrightarrow> reachable (s', d)"
| r_add_money: "reachable (s, d) \<Longrightarrow> reachable (fst (add_money float_of now ins s), d)"
| r_add_category: "reachable (s, d) \<Longrightarrow> reachable (fst (add_category ins s), d)"
| r_delete_category: "reachable (s, d) \<Longrightarrow> reachable (fst (delete_category ins s), d)"
| r_set_budget: "reachable (s, d) \<Longrightarrow> reachable (fst (set_budget float_of ins s), d)"
| r_set_category_budget:
    "reachable (s, d) \<Longrightarrow> set_category_budget float_of ins s = Inr (s', rest)
     \<Longrightarrow> reachable (s', d)"
| r_set_budget_interval: "reachable (s, d) \<Longrightarrow> reachable (fst (set_budget_interval ins s), d)"
| r_clear_all_data:
    "reachable (s, d) \<Longrightarrow> clear_all_data w ins s d = Inr (s', d', rest) \<Longrightarrow> reachable (s', d')"

subsection \<open>Invariants of the runs\<close>

text \<open>
  What every state of a run satisfies: the categories are pairwise different and none is
  the empty string, every key of the category budgets is a category, the history is no
  longer than its bound, and the bound and the path of the data file are the ones
  \<open>__init__\<close> sets. A file system is fine when starting from it gives such a state.
\<close>

definition state_inv :: "state \<Rightarrow> bool" where
  "state_inv s =
     (distinct (categories s) \<and> [] \<notin> set (categories s)
      \<and> fst ` set (category_budgets s) \<subseteq> set (categories s)
      \<and> length (transaction_history s) \<le> history_length s
      \<and> history_length s = 5
      \<and> data_file s = ''spending_data.pkl'')"

definition disk_inv :: "disk \<Rightarrow> bool" where
  "disk_inv d = state_inv (load_data d default_state)"

section \<open>Properties\<close>

subsection \<open>Prompts on a valid line\<close>

lemma amount_prompt_valid:
  "float_of l = Some amount \<Longrightarrow> 0 < amount \<Longrightarrow> amount_prompt float_of (l # ls) = (Some amount, ls)"
  by simp

lemma category_prompt_number:
  "isdigit l \<Longrightarrow> int_of_str l = Inr n \<Longrightarrow> 0 \<le> n - 1 \<Longrightarrow> n - 1 < int (length cats)
   \<Longrightarrow> category_prompt cats (l # ls) = Inr (Some (cats ! nat (n - 1)), ls)"
  by (simp add: isdigit_def)

lemma category_prompt_name:
  "l \<noteq> [] \<Longrightarrow> \<not> isdigit l \<Longrightarrow> l \<in> set cats
   \<Longrightarrow> category_prompt cats (l # ls) = Inr (Some l, ls)"
  by simp

lemma init_no_file:
  "init no_file = default_state\<lparr>category_budgets :=
     [(''Food'', 0), (''Housing'', 0), (''Transportation'', 0), (''Entertainment'', 0),
      (''Utilities'', 0), (''Other'', 0)]\<rparr>"
  by (simp add: init_def load_data_def no_file_def default_state_def
      initialize_category_budgets_def default_categories_def)

lemmas float_eval =
  fadd_def fsub_def round_double_def exponent_def round_half_even_def pow2_def Let_def
  bit_length.simps

subsection \<open>Adding an expense\<close>

text \<open>
  Claim C1, as the code has it. The category line is read as a number whenever it is
  all digits, and only otherwise as a name. So the valid inputs are: an amount line that
  is a number greater than zero; a category line that is either the number of a category
  in the list (digits, no more than \<open>int\<close> converts) or the name of a category in the
  list that is not all digits; and a well-formed date line. On these \<open>add_expense\<close>
  appends the one expense \<open>(date, category, amount)\<close> to the expenses, subtracts
  \<open>amount\<close> from the balance, and appends the one transaction
  \<open>("Expense", date, category, amount)\<close> to the history, whose oldest entry is dropped
  when the history was already full. No other field changes, the chosen category is in
  the list, and exactly the three lines are consumed.
\<close>

theorem add_expense_valid:
  assumes amt: "float_of amount_line = Some amount" "0 < amount"
    and cat: "(isdigit category_line \<and> int_of_str category_line = Inr n \<and> 0 \<le> n - 1
                \<and> n - 1 < int (length (categories s))
                \<and> category = categories s ! nat (n - 1))
              \<or> (category_line \<noteq> [] \<and> \<not> isdigit category_line
                  \<and> category_line \<in> set (categories s) \<and> category = category_line)"
    and dat: "date_line \<noteq> []" "strptime date_line = Some date"
  shows "add_expense float_of strptime now (amount_line # category_line # date_line # rest) s =
           Inr (s\<lparr>expenses := expenses s @ [(date, category, amount)],
                  balance := fsub (balance s) amount,
                  transaction_history :=
                    (if length (transaction_history s) < history_length s
                     then transaction_history s @ [(''Expense'', date, category, amount)]
                     else tl (transaction_history s
                                @ [(''Expense'', date, category, amount)]))\<rparr>,
                rest)
         \<and> category \<in> set (categories s)"
proof -
  have a: "amount_prompt float_of (amount_line # category_line # date_line # rest)
             = (Some amount, category_line # date_line # rest)"
    using amt by (rule amount_prompt_valid)
  have c: "category_prompt (categories s) (category_line # date_line # rest)
             = Inr (Some category, date_line # rest)"
    using cat by (auto simp: category_prompt_number category_prompt_name
                       simp del: category_prompt.simps)
  have d: "date_prompt strptime now (date_line # rest) = (Some date, rest)"
    using dat by simp
  have t: "trim_history (history_length s)
             (transaction_history s @ [(''Expense'', date, category, amount)])
           = (if length (transaction_history s) < history_length s
              then transaction_history s @ [(''Expense'', date, category, amount)]
              else tl (transaction_history s @ [(''Expense'', date, category, amount)]))"
    by (simp add: trim_history_def)
  have m: "category \<in> set (categories s)"
    using cat by (auto simp: nat_less_iff)
  show ?thesis
    using m
    by (simp add: add_expense_def a c d t
          del: amount_prompt.simps category_prompt.simps date_prompt.simps)
qed

theorem add_expense_valid_witness:
  "add_expense (\<lambda>x. if x = ''50'' then Some 50 else None)
     (\<lambda>x. if x = ''2024-01-10''
          then Some \<lparr>year = 2024, month = 1, day = 10, hour = 0, minute = 0, second = 0,
                     microsecond = 0\<rparr>
          else None)
     \<lparr>year = 2024, month = 2, day = 1, hour = 9, minute = 0, second = 0, microsecond = 0\<rparr>
     [''50'', ''1'', ''2024-01-10''] default_state
   = Inr (default_state
       \<lparr>expenses := [(\<lparr>year = 2024, month = 1, day = 10, hour = 0, minute = 0, second = 0,
                     microsecond = 0\<rparr>, ''Food'', 50)],
        balance := - 50,
        transaction_history :=
          [(''Expense'', \<lparr>year = 2024, month = 1, day = 10, hour = 0, minute = 0, second = 0,
                     microsecond = 0\<rparr>, ''Food'', 50)]\<rparr>, [])
   \<and> ''Food'' \<in> set (categories default_state)"
proof -
  let ?f = "\<lambda>x. if x = ''50'' then Some (50::real) else None"
  let ?d = "\<lparr>year = 2024, month = 1, day = 10, hour = 0, minute = 0, second = 0,
                     microsecond = 0\<rparr>"
  let ?p = "\<lambda>x. if x = ''2024-01-10'' then Some ?d else None"
  have h1: "?f ''50'' = Some 50" "(0::real) < 50" by simp_all
  have h2: "(isdigit ''1'' \<and> int_of_str ''1'' = Inr 1 \<and> (0::int) \<le> 1 - 1
                \<and> 1 - 1 < int (length (categories default_state))
                \<and> ''Food'' = categories default_state ! nat (1 - 1))
              \<or> (''1'' \<noteq> [] \<and> \<not> isdigit ''1''
                  \<and> ''1'' \<in> set (categories default_state) \<and> ''Food'' = ''1'')"
    by (simp add: isdigit_def isdigit_char_def int_of_str_def int_max_str_digits_def
        default_state_def default_categories_def)
  have h3: "''2024-01-10'' \<noteq> []" "?p ''2024-01-10'' = Some ?d" by simp_all
  have b: "fsub 0 50 = - 50"
    by (simp add: float_eval)
  show ?thesis
    using add_expense_valid [of ?f "''50''" 50 "''1''" 1 default_state "''Food''"
        "''2024-01-10''" ?p ?d _ "[]", OF h1 h2 h3]
    by (simp add: default_state_def b)
qed

text \<open>
  The claim as it was stated takes every category of the list for a valid input. A
  category whose name is all digits is not: \<open>add_category\<close> accepts the name \<open>3\<close>, and
  the line \<open>3\<close> at the category prompt of \<open>add_expense\<close> then chooses the third category
  of the list, so the expense is recorded under \<open>Transportation\<close>.
\<close>

theorem add_expense_digit_name_counterexample:
  "''3'' \<in> set (categories (fst (add_category [''3''] (init no_file))))
   \<and> map_sum id (expenses \<circ> fst)
       (add_expense (\<lambda>x. if x = ''40'' then Some 40 else None)
          (\<lambda>x. if x = ''2024-01-10''
               then Some \<lparr>year = 2024, month = 1, day = 10, hour = 0, minute = 0, second = 0,
                     microsecond = 0\<rparr>
               else None)
          \<lparr>year = 2024, month = 2, day = 1, hour = 9, minute = 0, second = 0,
            microsecond = 0\<rparr>
          [''40'', ''3'', ''2024-01-10''] (fst (add_category [''3''] (init no_file))))
     = Inr [(\<lparr>year = 2024, month = 1, day = 10, hour = 0, minute = 0, second = 0,
                     microsecond = 0\<rparr>, ''Transportation'', 40)]
   \<and> [(\<lparr>year = 2024, month = 1, day = 10, hour = 0, minute = 0, second = 0,
                     microsecond = 0\<rparr>, ''Transportation'', 40 :: real)]
       \<noteq> expenses (fst (add_category [''3''] (init no_file)))
           @ [(\<lparr>year = 2024, month = 1, day = 10, hour = 0, minute = 0, second = 0,
                     microsecond = 0\<rparr>, ''3'', 40)]"
  by (simp add: init_no_file default_state_def default_categories_def add_expense_def
      isdigit_def isdigit_char_def int_of_str_def int_max_str_digits_def)

text \<open>
  Claim C10. An empty line at the date prompt is neither rejected nor asked again: the
  prompt returns the current date and time and consumes that one line, and
  \<open>add_expense\<close> records the expense and its transaction with that date.
\<close>

theorem add_expense_empty_date:
  assumes amt: "float_of amount_line = Some amount" "0 < amount"
    and cat: "category_line \<noteq> []" "\<not> isdigit category_line"
             "category_line \<in> set (categories s)"
  shows "date_prompt strptime now ([] # rest) = (Some now, rest)
         \<and> add_expense float_of strptime now (amount_line # category_line # [] # rest) s =
           Inr (s\<lparr>expenses := expenses s @ [(now, category_line, amount)],
                  balance := fsub (balance s) amount,
                  transaction_history :=
                    trim_history (history_length s)
                      (transaction_history s @ [(''Expense'', now, category_line, amount)])\<rparr>,
                rest)"
proof -
  have d: "date_prompt strptime now ([] # rest) = (Some now, rest)"
    by simp
  have a: "amount_prompt float_of (amount_line # category_line # [] # rest)
             = (Some amount, category_line # [] # rest)"
    using amt by (rule amount_prompt_valid)
  have c: "category_prompt (categories s) (category_line # [] # rest)
             = Inr (Some category_line, [] # rest)"
    using cat by (rule category_prompt_name)
  show ?thesis
    by (simp add: add_expense_def a c d
          del: amount_prompt.simps category_prompt.simps date_prompt.simps)
qed

theorem add_expense_empty_date_witness:
  "date_prompt (\<lambda>x. None)
     \<lparr>year = 2024, month = 2, day = 1, hour = 9, minute = 0, second = 0, microsecond = 0\<rparr>
     [[]]
   = (Some \<lparr>year = 2024, month = 2, day = 1, hour = 9, minute = 0, second = 0,
            microsecond = 0\<rparr>, [])
   \<and> add_expense (\<lambda>x. if x = ''12.5'' then Some 12.5 else None) (\<lambda>x. None)
     \<lparr>year = 2024, month = 2, day = 1, hour = 9, minute = 0, second = 0, microsecond = 0\<rparr>
     [''12.5'', ''Other'', []] default_state
   = Inr (default_state
       \<lparr>expenses := [(\<lparr>year = 2024, month = 2, day = 1, hour = 9, minute = 0, second = 0,
                        microsecond = 0\<rparr>, ''Other'', 12.5)],
        balance := - 12.5,
        transaction_history :=
          [(''Expense'', \<lparr>year = 2024, month = 2, day = 1, hour = 9, minute = 0, second = 0,
                           microsecond = 0\<rparr>, ''Other'', 12.5)]\<rparr>, [])"
proof -
  let ?f = "\<lambda>x. if x = ''12.5'' then Some (12.5::real) else None"
  have h1: "?f ''12.5'' = Some 12.5" "(0::real) < 12.5" by simp_all
  have h2: "''Other'' \<noteq> []" "\<not> isdigit ''Other''" "''Other'' \<in> set (categories default_state)"
    by (simp_all add: isdigit_def isdigit_char_def default_state_def default_categories_def)
  have b: "fsub 0 (25 / 2) = - (25 / 2)"
    by (simp add: float_eval)
  show ?thesis
    using add_expense_empty_date [of ?f "''12.5''" "12.5" "''Other''" default_state
        "\<lambda>x. None" _ "[]", OF h1 h2]
    by (simp add: default_state_def trim_history_def b)
qed

subsection \<open>Clearing all data\<close>

text \<open>
  Claim C6. Once the confirmation, lowered, reads \<open>yes\<close> (after any number of answers
  that are neither \<open>yes\<close> nor \<open>no\<close>), \<open>clear_all_data\<close> sets the expenses to the empty
  list, the balance to 0, the history to the empty list, the budget to 0 and the
  category budgets to the empty dictionary, which is the value \<open>__init__\<close> assigns them,
  and calls \<open>save_data\<close> on the state so cleared; when the write succeeds the data file
  holds the cleared state. The categories and the budget interval stay.
\<close>

theorem clear_all_data_yes:
  assumes "list_all (\<lambda>x. lower x \<noteq> ''yes'' \<and> lower x \<noteq> ''no'') pre"
    and "lower l = ''yes''"
  shows "clear_all_data w (pre @ l # rest) s d =
           Inr (s\<lparr>expenses := [], balance := 0, transaction_history := [], budget := 0,
                  category_budgets := []\<rparr>,
                save_data w
                  (s\<lparr>expenses := [], balance := 0, transaction_history := [], budget := 0,
                     category_budgets := []\<rparr>) d,
                rest)
         \<and> save_data WriteOk
              (s\<lparr>expenses := [], balance := 0, transaction_history := [], budget := 0,
                 category_budgets := []\<rparr>) d (data_file s) =
             Some (Pickled
               \<lparr>p_expenses = Some [], p_categories = Some (categories s), p_balance = Some 0,
                p_transaction_history = Some [], p_budget = Some 0,
                p_budget_interval = Some (budget_interval s), p_category_budgets = Some []\<rparr>)
         \<and> category_budgets default_state = []"
proof -
  have "clear_all_data w (pre @ l # rest) s d =
           Inr (s\<lparr>expenses := [], balance := 0, transaction_history := [], budget := 0,
                  category_budgets := []\<rparr>,
                save_data w
                  (s\<lparr>expenses := [], balance := 0, transaction_history := [], budget := 0,
                     category_budgets := []\<rparr>) d,
                rest)"
    using assms by (induction pre) (simp_all add: Let_def)
  then show ?thesis
    by (simp add: save_data_def default_state_def)
qed

theorem clear_all_data_yes_witness:
  "clear_all_data WriteOk [''maybe'', ''YES'', ''1'']
     (default_state\<lparr>balance := 7, budget := 100, category_budgets := [(''Food'', 30)]\<rparr>)
     no_file =
     Inr (default_state,
          save_data WriteOk default_state no_file, [''1''])
   \<and> save_data WriteOk default_state no_file ''spending_data.pkl'' =
       Some (Pickled
         \<lparr>p_expenses = Some [], p_categories = Some default_categories, p_balance = Some 0,
          p_transaction_history = Some [], p_budget = Some 0,
          p_budget_interval = Some ''Month'', p_category_budgets = Some []\<rparr>)"
proof -
  have h1: "list_all (\<lambda>x. lower x \<noteq> ''yes'' \<and> lower x \<noteq> ''no'') [''maybe'']"
    by (simp add: lower_def lower_char_def isupper_char_def)
  have h2: "lower ''YES'' = ''yes''"
    by (simp add: lower_def lower_char_def isupper_char_def char_of_eq_iff)
  show ?thesis
    using clear_all_data_yes [OF h1 h2, of WriteOk "[''1'']"
        "default_state\<lparr>balance := 7, budget := 100, category_budgets := [(''Food'', 30)]\<rparr>"
        no_file]
    by (simp add: default_state_def)
qed

text \<open>
  Claim C7. Once the confirmation, lowered, reads \<open>no\<close> (after any number of answers
  that are neither \<open>yes\<close> nor \<open>no\<close>), \<open>clear_all_data\<close> returns the state as it was, every
  field of it, and the file system as it was: nothing is written.
\<close>

theorem clear_all_data_no:
  assumes "list_all (\<lambda>x. lower x \<noteq> ''yes'' \<and> lower x \<noteq> ''no'') pre"
    and "lower l = ''no''"
  shows "clear_all_data w (pre @ l # rest) s d = Inr (s, d, rest)"
  using assms by (induction pre) (simp_all add: Let_def)

theorem clear_all_data_no_witness:
  "clear_all_data WriteOk [''what'', ''No'']
     (default_state\<lparr>balance := 7, budget := 100\<rparr>) no_file =
     Inr (default_state\<lparr>balance := 7, budget := 100\<rparr>, no_file, [])"
proof -
  have h1: "list_all (\<lambda>x. lower x \<noteq> ''yes'' \<and> lower x \<noteq> ''no'') [''what'']"
    by (simp add: lower_def lower_char_def isupper_char_def)
  have h2: "lower ''No'' = ''no''"
    by (simp add: lower_def lower_char_def isupper_char_def char_of_eq_iff)
  show ?thesis
    using clear_all_data_no [OF h1 h2, of WriteOk "[]"
        "default_state\<lparr>balance := 7, budget := 100\<rparr>" no_file]
    by simp
qed

subsection \<open>Saving and loading\<close>

text \<open>
  Claim C2. After \<open>save_data\<close> has written the state \<open>s\<close> (the write succeeds),
  \<open>load_data\<close> in any object that reads the same data file gives each of the seven
  persisted fields the value it has in \<open>s\<close>.
\<close>

theorem save_load_round_trip:
  assumes "data_file t = data_file s"
  shows "expenses (load_data (save_data WriteOk s d) t) = expenses s
       \<and> categories (load_data (save_data WriteOk s d) t) = categories s
       \<and> balance (load_data (save_data WriteOk s d) t) = balance s
       \<and> transaction_history (load_data (save_data WriteOk s d) t) = transaction_history s
       \<and> budget (load_data (save_data WriteOk s d) t) = budget s
       \<and> budget_interval (load_data (save_data WriteOk s d) t) = budget_interval s
       \<and> category_budgets (load_data (save_data WriteOk s d) t) = category_budgets s"
  using assms by (simp add: load_data_def save_data_def)

theorem save_load_round_trip_witness:
  "balance (load_data
     (save_data WriteOk (default_state\<lparr>balance := 20, categories := [''Rent'']\<rparr>) no_file)
     default_state) = 20
   \<and> categories (load_data
     (save_data WriteOk (default_state\<lparr>balance := 20, categories := [''Rent'']\<rparr>) no_file)
     default_state) = [''Rent'']"
proof -
  have h: "data_file default_state
             = data_file (default_state\<lparr>balance := 20, categories := [''Rent'']\<rparr>)"
    by simp
  show ?thesis
    using save_load_round_trip [OF h, of no_file] by simp
qed

subsection \<open>The invariants hold along every run\<close>

lemma state_inv_default: "state_inv default_state"
  by (simp add: state_inv_def default_state_def default_categories_def)

lemma initialize_loop_keys:
  "fst ` set (initialize_category_budgets_loop cs cb) \<subseteq> fst ` set cb \<union> set cs"
proof (induction cs arbitrary: cb)
  case Nil
  show ?case by simp
next
  case (Cons c cs)
  have "fst ` set (initialize_category_budgets_loop cs
          (if c \<notin> fst ` set cb then AList.update c 0 cb else cb))
        \<subseteq> fst ` set (if c \<notin> fst ` set cb then AList.update c 0 cb else cb) \<union> set cs"
    by (rule Cons.IH)
  also have "\<dots> \<subseteq> fst ` set cb \<union> set (c # cs)"
    by (auto simp: dom_update)
  finally show ?case by simp
qed

lemma state_inv_initialize:
  "state_inv s \<Longrightarrow> state_inv (initialize_category_budgets s)"
  using initialize_loop_keys [of "categories s" "category_budgets s"]
  by (auto simp: state_inv_def initialize_category_budgets_def)

lemma length_trim_history:
  "length h \<le> n \<Longrightarrow> length (trim_history n (h @ [t])) \<le> n"
  by (simp add: trim_history_def)

lemma category_prompt_mem:
  "category_prompt cats ins = Inr (Some c, r) \<Longrightarrow> c \<in> set cats"
proof (induction ins)
  case Nil
  then show ?case by simp
next
  case (Cons l ls)
  then show ?case
    by (auto simp: Let_def nat_less_iff split: if_splits sum.splits)
qed

lemma add_expense_result:
  assumes "add_expense float_of strptime now ins s = Inr (s', rest)"
  shows "s' = s
       \<or> (\<exists>date category amount.
            s' = s\<lparr>expenses := expenses s @ [(date, category, amount)],
                   balance := fsub (balance s) amount,
                   transaction_history :=
                     trim_history (history_length s)
                       (transaction_history s @ [(''Expense'', date, category, amount)])\<rparr>)"
  using assms
  by (auto simp: add_expense_def split: prod.splits option.splits sum.splits)

lemma state_inv_add_expense:
  assumes "add_expense float_of strptime now ins s = Inr (s', rest)" and "state_inv s"
  shows "state_inv s'"
  using add_expense_result [OF assms(1)]
proof
  assume "s' = s"
  with assms(2) show ?thesis by simp
next
  assume "\<exists>date category amount.
            s' = s\<lparr>expenses := expenses s @ [(date, category, amount)],
                   balance := fsub (balance s) amount,
                   transaction_history :=
                     trim_history (history_length s)
                       (transaction_history s @ [(''Expense'', date, category, amount)])\<rparr>"
  then obtain date category amount where
    "s' = s\<lparr>expenses := expenses s @ [(date, category, amount)],
            balance := fsub (balance s) amount,
            transaction_history :=
              trim_history (history_length s)
                (transaction_history s @ [(''Expense'', date, category, amount)])\<rparr>"
    by blast
  with assms(2) show ?thesis
    by (simp add: state_inv_def length_trim_history)
qed

lemma state_inv_add_money:
  "state_inv s \<Longrightarrow> state_inv (fst (add_money float_of now ins s))"
  by (induction ins) (auto simp: state_inv_def length_trim_history split: option.splits)

lemma state_inv_add_category:
  "state_inv s \<Longrightarrow> state_inv (fst (add_category ins s))"
  by (induction ins) (auto simp: state_inv_def dom_update)

lemma state_inv_delete_category:
  "state_inv s \<Longrightarrow> state_inv (fst (delete_category ins s))"
proof (induction ins)
  case Nil
  then show ?case by simp
next
  case (Cons c ls)
  have keys: "fst ` set (AList.delete c (category_budgets s))
                = fst ` set (category_budgets s) - {c}"
    by (auto simp: AList.delete_eq)
  from Cons show ?case
    by (auto simp: state_inv_def keys)
qed

lemma state_inv_set_budget:
  "state_inv s \<Longrightarrow> state_inv (fst (set_budget float_of ins s))"
  by (induction ins) (auto simp: state_inv_def split: option.splits)

lemma set_category_budget_result:
  assumes "set_category_budget float_of ins s = Inr (s', rest)"
  shows "s' = s
       \<or> (\<exists>category b. category \<in> set (categories s)
            \<and> s' = s\<lparr>category_budgets := AList.update category b (category_budgets s)\<rparr>)"
  using assms
  by (auto simp: set_category_budget_def dest: category_prompt_mem
           split: prod.splits option.splits sum.splits)

lemma state_inv_set_category_budget:
  assumes "set_category_budget float_of ins s = Inr (s', rest)" and "state_inv s"
  shows "state_inv s'"
  using set_category_budget_result [OF assms(1)]
proof
  assume "s' = s"
  with assms(2) show ?thesis by simp
next
  assume "\<exists>category b. category \<in> set (categories s)
            \<and> s' = s\<lparr>category_budgets := AList.update category b (category_budgets s)\<rparr>"
  then obtain category b where "category \<in> set (categories s)"
    "s' = s\<lparr>category_budgets := AList.update category b (category_budgets s)\<rparr>"
    by blast
  with assms(2) show ?thesis
    by (simp add: state_inv_def dom_update)
qed

lemma state_inv_set_budget_interval:
  "state_inv s \<Longrightarrow> state_inv (fst (set_budget_interval ins s))"
  by (induction ins) (auto simp: state_inv_def Let_def)

lemma disk_inv_save_data:
  "state_inv s \<Longrightarrow> disk_inv d \<Longrightarrow> disk_inv (save_data w s d)"
  by (cases w)
     (auto simp: disk_inv_def state_inv_def save_data_def load_data_def default_state_def
                 default_categories_def)

lemma inv_clear_all_data:
  "clear_all_data w ins s d = Inr (s', d', rest) \<Longrightarrow> state_inv s \<Longrightarrow> disk_inv d
   \<Longrightarrow> state_inv s' \<and> disk_inv d'"
proof (induction ins)
  case Nil
  then show ?case by simp
next
  case (Cons l ls)
  let ?c = "s\<lparr>expenses := [], balance := 0, transaction_history := [], budget := 0,
               category_budgets := []\<rparr>"
  have c: "state_inv ?c"
    using Cons.prems(2) by (simp add: state_inv_def)
  show ?case
  proof (cases "lower l = ''yes''")
    case True
    with Cons.prems(1) have "s' = ?c" "d' = save_data w ?c d"
      by (auto simp: Let_def)
    with c Cons.prems(3) show ?thesis
      by (simp add: disk_inv_save_data)
  next
    case False
    then show ?thesis
      using Cons by (cases "lower l = ''no''") (simp_all add: Let_def)
  qed
qed

lemma disk_inv_no_file: "disk_inv no_file"
  by (simp add: disk_inv_def no_file_def load_data_def state_inv_default)

lemma state_inv_init: "disk_inv d \<Longrightarrow> state_inv (init d)"
  by (simp add: init_def disk_inv_def state_inv_initialize)

lemma reachable_inv:
  "reachable q \<Longrightarrow> state_inv (fst q) \<and> disk_inv (snd q)"
proof (induction rule: reachable.induct)
  case r_first
  show ?case by (simp add: disk_inv_no_file state_inv_init)
next
  case (r_start s d)
  then show ?case by (simp add: state_inv_init)
next
  case (r_exit s d w)
  then show ?case by (simp add: disk_inv_save_data)
next
  case (r_add_expense s d float_of strptime now ins s' rest)
  then show ?case using state_inv_add_expense [of float_of strptime now ins s s' rest] by simp
next
  case (r_add_money s d float_of now ins)
  then show ?case by (simp add: state_inv_add_money)
next
  case (r_add_category s d ins)
  then show ?case by (simp add: state_inv_add_category)
next
  case (r_delete_category s d ins)
  then show ?case by (simp add: state_inv_delete_category)
next
  case (r_set_budget s d float_of ins)
  then show ?case by (simp add: state_inv_set_budget)
next
  case (r_set_category_budget s d float_of ins s' rest)
  then show ?case using state_inv_set_category_budget [of float_of ins s s' rest] by simp
next
  case (r_set_budget_interval s d ins)
  then show ?case by (simp add: state_inv_set_budget_interval)
next
  case (r_clear_all_data s d w ins s' d' rest)
  then show ?case using inv_clear_all_data [of w ins s d s' d' rest] by simp
qed

subsection \<open>The bounded history\<close>

text \<open>
  Claim C3. In every state of a run the transaction history is no longer than
  \<open>history_length\<close>, which is 5. Appending a transaction and trimming keeps the history
  as it is with the new entry at its end while fewer than 5 entries are held, and
  otherwise drops the head, the oldest entry, and puts the new entry at the end; this
  is what a deposit of a valid amount does to the history.
\<close>

theorem history_bounded_fifo:
  assumes "reachable (s, d)"
  shows "length (transaction_history s) \<le> history_length s \<and> history_length s = 5
       \<and> trim_history (history_length s) (transaction_history s @ [t]) =
           (if length (transaction_history s) < 5 then transaction_history s @ [t]
            else tl (transaction_history s) @ [t])
       \<and> (float_of l = Some amount \<and> 0 < amount \<longrightarrow>
            transaction_history (fst (add_money float_of now (l # ls) s)) =
              (if length (transaction_history s) < 5
               then transaction_history s @ [(''Deposit'', now, ''Deposit'', amount)]
               else tl (transaction_history s) @ [(''Deposit'', now, ''Deposit'', amount)]))"
proof -
  have i: "length (transaction_history s) \<le> history_length s" "history_length s = 5"
    using reachable_inv [OF assms] by (simp_all add: state_inv_def)
  have t: "trim_history (history_length s) (transaction_history s @ [x]) =
           (if length (transaction_history s) < 5 then transaction_history s @ [x]
            else tl (transaction_history s) @ [x])" for x
    using i by (cases "transaction_history s") (simp_all add: trim_history_def)
  show ?thesis
    using i t by simp
qed

theorem history_bounded_fifo_witness:
  "reachable ((default_state\<lparr>balance := 15,
       transaction_history :=
         [(''Deposit'', \<lparr>year = 2024, month = 6, day = 15, hour = 14, minute = 30, second = 0,
        microsecond = 0\<rparr>, ''Deposit'', 1),
          (''Deposit'', \<lparr>year = 2024, month = 6, day = 15, hour = 14, minute = 30, second = 0,
        microsecond = 0\<rparr>, ''Deposit'', 2),
          (''Deposit'', \<lparr>year = 2024, month = 6, day = 15, hour = 14, minute = 30, second = 0,
        microsecond = 0\<rparr>, ''Deposit'', 3),
          (''Deposit'', \<lparr>year = 2024, month = 6, day = 15, hour = 14, minute = 30, second = 0,
        microsecond = 0\<rparr>, ''Deposit'', 4),
          (''Deposit'', \<lparr>year = 2024, month = 6, day = 15, hour = 14, minute = 30, second = 0,
        microsecond = 0\<rparr>, ''Deposit'', 5)],
       category_budgets :=
         [(''Food'', 0), (''Housing'', 0), (''Transportation'', 0), (''Entertainment'', 0),
           (''Utilities'', 0), (''Other'', 0)]\<rparr>), no_file)
   \<and> map (\<lambda>(kind, date, category, amount). amount)
        (transaction_history
           (fst (add_money (\<lambda>x. if x = ''1'' then Some 1 else if x = ''2'' then Some 2
         else if x = ''3'' then Some 3 else if x = ''4'' then Some 4
         else if x = ''5'' then Some 5 else if x = ''6'' then Some 6 else None)
              \<lparr>year = 2024, month = 6, day = 15, hour = 14, minute = 30, second = 0,
        microsecond = 0\<rparr> [''6'']
              (default_state\<lparr>balance := 15,
       transaction_history :=
         [(''Deposit'', \<lparr>year = 2024, month = 6, day = 15, hour = 14, minute = 30, second = 0,
        microsecond = 0\<rparr>, ''Deposit'', 1),
          (''Deposit'', \<lparr>year = 2024, month = 6, day = 15, hour = 14, minute = 30, second = 0,
        microsecond = 0\<rparr>, ''Deposit'', 2),
          (''Deposit'', \<lparr>year = 2024, month = 6, day = 15, hour = 14, minute = 30, second = 0,
        microsecond = 0\<rparr>, ''Deposit'', 3),
          (''Deposit'', \<lparr>year = 2024, month = 6, day = 15, hour = 14, minute = 30, second = 0,
        microsecond = 0\<rparr>, ''Deposit'', 4),
          (''Deposit'', \<lparr>year = 2024, month = 6, day = 15, hour = 14, minute = 30, second = 0,
        microsecond = 0\<rparr>, ''Deposit'', 5)],
       category_budgets :=
         [(''Food'', 0), (''Housing'', 0), (''Transportation'', 0), (''Entertainment'', 0),
           (''Utilities'', 0), (''Other'', 0)]\<rparr>)))) = [2, 3, 4, 5, 6]"
proof -
  let ?f = "(\<lambda>x. if x = ''1'' then Some 1 else if x = ''2'' then Some 2
         else if x = ''3'' then Some 3 else if x = ''4'' then Some 4
         else if x = ''5'' then Some 5 else if x = ''6'' then Some 6 else None)"
  let ?n = "\<lparr>year = 2024, month = 6, day = 15, hour = 14, minute = 30, second = 0,
        microsecond = 0\<rparr>"
  let ?z = "[(''Food'', 0), (''Housing'', 0), (''Transportation'', 0), (''Entertainment'', 0),
           (''Utilities'', 0), (''Other'', 0)]"
  let ?t1 = "default_state\<lparr>balance := 1, transaction_history := [(''Deposit'', ?n, ''Deposit'', 1)],
       category_budgets := ?z\<rparr>"
  let ?t2 = "default_state\<lparr>balance := 3, transaction_history := [(''Deposit'', ?n, ''Deposit'', 1), (''Deposit'', ?n, ''Deposit'', 2)],
       category_budgets := ?z\<rparr>"
  let ?t3 = "default_state\<lparr>balance := 6, transaction_history := [(''Deposit'', ?n, ''Deposit'', 1), (''Deposit'', ?n, ''Deposit'', 2), (''Deposit'', ?n, ''Deposit'', 3)],
       category_budgets := ?z\<rparr>"
  let ?t4 = "default_state\<lparr>balance := 10, transaction_history := [(''Deposit'', ?n, ''Deposit'', 1), (''Deposit'', ?n, ''Deposit'', 2), (''Deposit'', ?n, ''Deposit'', 3), (''Deposit'', ?n, ''Deposit'', 4)],
       category_budgets := ?z\<rparr>"
  let ?t5 = "default_state\<lparr>balance := 15, transaction_history := [(''Deposit'', ?n, ''Deposit'', 1), (''Deposit'', ?n, ''Deposit'', 2), (''Deposit'', ?n, ''Deposit'', 3), (''Deposit'', ?n, ''Deposit'', 4), (''Deposit'', ?n, ''Deposit'', 5)],
       category_budgets := ?z\<rparr>"
  have a: "fadd 0 1 = 1" "fadd 1 2 = 3" "fadd 3 3 = 6" "fadd 6 4 = 10" "fadd 10 5 = 15"
    by (simp_all add: float_eval)
  have e1: "add_money ?f ?n [''1''] (init no_file) = (?t1, [])"
    by (simp add: init_no_file default_state_def trim_history_def a)
  have e2: "add_money ?f ?n [''2''] ?t1 = (?t2, [])"
    by (simp add: default_state_def trim_history_def a)
  have e3: "add_money ?f ?n [''3''] ?t2 = (?t3, [])"
    by (simp add: default_state_def trim_history_def a)
  have e4: "add_money ?f ?n [''4''] ?t3 = (?t4, [])"
    by (simp add: default_state_def trim_history_def a)
  have e5: "add_money ?f ?n [''5''] ?t4 = (?t5, [])"
    by (simp add: default_state_def trim_history_def a)
  have r1: "reachable (?t1, no_file)"
    using r_add_money [OF r_first, of ?f ?n "[''1'']"] by (simp only: e1 fst_conv)
  have r2: "reachable (?t2, no_file)"
    using r_add_money [OF r1, of ?f ?n "[''2'']"] by (simp only: e2 fst_conv)
  have r3: "reachable (?t3, no_file)"
    using r_add_money [OF r2, of ?f ?n "[''3'']"] by (simp only: e3 fst_conv)
  have r4: "reachable (?t4, no_file)"
    using r_add_money [OF r3, of ?f ?n "[''4'']"] by (simp only: e4 fst_conv)
  have r5: "reachable (?t5, no_file)"
    using r_add_money [OF r4, of ?f ?n "[''5'']"] by (simp only: e5 fst_conv)
  have p: "?f ''6'' = Some 6 \<and> (0::real) < 6"
    by simp
  have h: "transaction_history (fst (add_money ?f ?n [''6''] ?t5)) =
             tl (transaction_history ?t5) @ [(''Deposit'', ?n, ''Deposit'', 6)]"
    using p history_bounded_fifo [OF r5, of _ ?f "''6''" 6 ?n "[]"]
    by (simp del: add_money.simps)
  have v: "map (\<lambda>(kind, date, category, amount). amount)
             (tl (transaction_history ?t5) @ [(''Deposit'', ?n, ''Deposit'', 6)])
           = [2, 3, 4, 5, 6]"
    by simp
  from r5 v [folded h] show ?thesis
    by (rule conjI)
qed

subsection \<open>Category budgets belong to categories\<close>

text \<open>
  Claim C9. In every state of a run, which starts with \<open>__init__\<close> and goes on with any
  of the methods (\<open>add_category\<close>, \<open>delete_category\<close>, \<open>set_category_budget\<close>,
  \<open>clear_all_data\<close> and the others) on any input, every key of \<open>category_budgets\<close> is in
  the list of categories.
\<close>

theorem category_budget_keys:
  assumes "reachable (s, d)"
  shows "fst ` set (category_budgets s) \<subseteq> set (categories s)"
  using reachable_inv [OF assms] by (simp add: state_inv_def)

theorem category_budget_keys_witness:
  "set_category_budget (\<lambda>x. if x = ''25'' then Some 25 else None) [''Other'', ''25'']
     (fst (delete_category [''Food''] (fst (add_category [''Pets''] (init no_file))))) = Inr ((default_state
       \<lparr>categories :=
          [''Housing'', ''Transportation'', ''Entertainment'', ''Utilities'', ''Other'',
           ''Pets''],
        category_budgets :=
          [(''Housing'', 0), (''Transportation'', 0), (''Entertainment'', 0),
           (''Utilities'', 0), (''Other'', 25), (''Pets'', 0)]\<rparr>), [])
   \<and> reachable ((default_state
       \<lparr>categories :=
          [''Housing'', ''Transportation'', ''Entertainment'', ''Utilities'', ''Other'',
           ''Pets''],
        category_budgets :=
          [(''Housing'', 0), (''Transportation'', 0), (''Entertainment'', 0),
           (''Utilities'', 0), (''Other'', 25), (''Pets'', 0)]\<rparr>), no_file)
   \<and> fst ` set (category_budgets (default_state
       \<lparr>categories :=
          [''Housing'', ''Transportation'', ''Entertainment'', ''Utilities'', ''Other'',
           ''Pets''],
        category_budgets :=
          [(''Housing'', 0), (''Transportation'', 0), (''Entertainment'', 0),
           (''Utilities'', 0), (''Other'', 25), (''Pets'', 0)]\<rparr>)) \<subseteq> set (categories (default_state
       \<lparr>categories :=
          [''Housing'', ''Transportation'', ''Entertainment'', ''Utilities'', ''Other'',
           ''Pets''],
        category_budgets :=
          [(''Housing'', 0), (''Transportation'', 0), (''Entertainment'', 0),
           (''Utilities'', 0), (''Other'', 25), (''Pets'', 0)]\<rparr>))"
proof -
  let ?t = "(default_state
       \<lparr>categories :=
          [''Housing'', ''Transportation'', ''Entertainment'', ''Utilities'', ''Other'',
           ''Pets''],
        category_budgets :=
          [(''Housing'', 0), (''Transportation'', 0), (''Entertainment'', 0),
           (''Utilities'', 0), (''Other'', 25), (''Pets'', 0)]\<rparr>)"
  have p: "reachable ((fst (delete_category [''Food''] (fst (add_category [''Pets''] (init no_file))))), no_file)"
    by (intro r_delete_category r_add_category r_first)
  have e: "set_category_budget (\<lambda>x. if x = ''25'' then Some 25 else None) [''Other'', ''25'']
     (fst (delete_category [''Food''] (fst (add_category [''Pets''] (init no_file))))) = Inr (?t, [])"
    by (simp add: init_no_file default_state_def default_categories_def
        set_category_budget_def isdigit_def isdigit_char_def AList.delete_eq)
  have r: "reachable (?t, no_file)"
    using p e by (rule r_set_category_budget)
  from e conjI [OF r category_budget_keys [OF r]]
  show ?thesis by (rule conjI)
qed

subsection \<open>Deleting a category that expenses refer to\<close>

lemma weekday_range: "0 \<le> weekday now \<and> weekday now \<le> 6"
  by (simp add: weekday_def)

lemma sub_days_ok: "k < toordinal now \<Longrightarrow> \<exists>r. sub_days now k = Inr r"
  by (simp add: sub_days_def Let_def split: prod.splits)

lemma interval_start_ok:
  assumes "14 \<le> toordinal now"
  shows "\<exists>r. interval_start interval now = Inr r"
proof -
  have w: "0 \<le> weekday now \<and> weekday now \<le> 6" by (rule weekday_range)
  have 1: "\<exists>r. sub_days now (weekday now) = Inr r"
    using assms w by (intro sub_days_ok) linarith
  have 2: "\<exists>r. sub_days now (weekday now + 7) = Inr r"
    using assms w by (intro sub_days_ok) linarith
  from 1 2 show ?thesis
    by (auto simp: interval_start_def Let_def)
qed

lemma display_status_ok:
  assumes "14 \<le> toordinal now"
  shows "\<exists>r. display_status now s = Inr r \<and> st_category_lines r = category_lines s"
proof -
  obtain st where "interval_start (budget_interval s) now = Inr st"
    using interval_start_ok [OF assms] by blast
  then show ?thesis
    by (cases st) (simp_all add: display_status_def Let_def)
qed

lemma category_lines_keys: "fst ` set (category_lines s) = fst ` set (category_budgets s)"
  by (force simp: category_lines_def Let_def)

text \<open>
  Claim C8. In a state of a run, deleting a category of the list takes the name out of
  the list and its entry out of the category budgets, and leaves the expenses as they
  are. The summary of the state afterwards is the summary of the state before, so the
  expenses of the deleted category are still listed and totalled, and the status display
  returns a report (for a clock that shows 14 January of year 1 or later) that has no
  line for the deleted category.
\<close>

theorem delete_category_orphans:
  assumes r: "reachable (s, d)" and c: "c \<in> set (categories s)" and n: "14 \<le> toordinal now"
  shows "delete_category (c # rest) s =
           (s\<lparr>categories := remove1 c (categories s),
              category_budgets := AList.delete c (category_budgets s)\<rparr>, rest)
       \<and> c \<notin> set (remove1 c (categories s))
       \<and> c \<notin> fst ` set (AList.delete c (category_budgets s))
       \<and> expenses (fst (delete_category (c # rest) s)) = expenses s
       \<and> update_summary (fst (delete_category (c # rest) s)) = update_summary s
       \<and> (\<exists>report. display_status now (fst (delete_category (c # rest) s)) = Inr report
            \<and> c \<notin> fst ` set (st_category_lines report))"
proof -
  let ?s' = "s\<lparr>categories := remove1 c (categories s),
               category_budgets := AList.delete c (category_budgets s)\<rparr>"
  have i: "distinct (categories s)" "[] \<notin> set (categories s)"
    using reachable_inv [OF r] by (simp_all add: state_inv_def)
  from c i have ne: "c \<noteq> []" by auto
  have k: "c \<notin> fst ` set (AList.delete c (category_budgets s))"
    by (simp add: delete_notin_dom)
  have del: "(if c \<in> fst ` set (category_budgets s)
              then AList.delete c (category_budgets s) else category_budgets s)
             = AList.delete c (category_budgets s)"
    by simp
  have d: "delete_category (c # rest) s = (?s', rest)"
    using c ne by (simp add: del)
  have m: "c \<notin> set (remove1 c (categories s))"
    using i by simp
  obtain report where rep: "display_status now ?s' = Inr report"
      "st_category_lines report = category_lines ?s'"
    using display_status_ok [OF n, of ?s'] by blast
  have "c \<notin> fst ` set (st_category_lines report)"
    using k by (simp add: rep(2) category_lines_keys)
  with rep(1) have e: "\<exists>report. display_status now ?s' = Inr report
            \<and> c \<notin> fst ` set (st_category_lines report)"
    by blast
  have u: "update_summary ?s' = update_summary s"
    by (simp add: update_summary_def)
  show ?thesis
    unfolding d using m k e u by simp
qed

theorem delete_category_orphans_witness:
  "add_expense (\<lambda>x. if x = ''40'' then Some 40 else None) (\<lambda>x. None)
     \<lparr>year = 2024, month = 6, day = 15, hour = 14, minute = 30, second = 0,
       microsecond = 0\<rparr> [''40'', ''Food'', []] (init no_file) = Inr ((default_state
       \<lparr>expenses := [(\<lparr>year = 2024, month = 6, day = 15, hour = 14, minute = 30, second = 0,
       microsecond = 0\<rparr>, ''Food'', 40)],
        balance := - 40,
        transaction_history := [(''Expense'', \<lparr>year = 2024, month = 6, day = 15, hour = 14, minute = 30, second = 0,
       microsecond = 0\<rparr>, ''Food'', 40)],
        category_budgets :=
          [(''Food'', 0), (''Housing'', 0), (''Transportation'', 0), (''Entertainment'', 0),
           (''Utilities'', 0), (''Other'', 0)]\<rparr>), [])
   \<and> reachable ((default_state
       \<lparr>expenses := [(\<lparr>year = 2024, month = 6, day = 15, hour = 14, minute = 30, second = 0,
       microsecond = 0\<rparr>, ''Food'', 40)],
        balance := - 40,
        transaction_history := [(''Expense'', \<lparr>year = 2024, month = 6, day = 15, hour = 14, minute = 30, second = 0,
       microsecond = 0\<rparr>, ''Food'', 40)],
        category_budgets :=
          [(''Food'', 0), (''Housing'', 0), (''Transportation'', 0), (''Entertainment'', 0),
           (''Utilities'', 0), (''Other'', 0)]\<rparr>), no_file)
   \<and> ''Food'' \<in> set (categories (default_state
       \<lparr>expenses := [(\<lparr>year = 2024, month = 6, day = 15, hour = 14, minute = 30, second = 0,
       microsecond = 0\<rparr>, ''Food'', 40)],
        balance := - 40,
        transaction_history := [(''Expense'', \<lparr>year = 2024, month = 6, day = 15, hour = 14, minute = 30, second = 0,
       microsecond = 0\<rparr>, ''Food'', 40)],
        category_budgets :=
          [(''Food'', 0), (''Housing'', 0), (''Transportation'', 0), (''Entertainment'', 0),
           (''Utilities'', 0), (''Other'', 0)]\<rparr>))
   \<and> 14 \<le> toordinal \<lparr>year = 2024, month = 6, day = 15, hour = 14, minute = 30, second = 0,
       microsecond = 0\<rparr>
   \<and> delete_category [''Food''] (default_state
       \<lparr>expenses := [(\<lparr>year = 2024, month = 6, day = 15, hour = 14, minute = 30, second = 0,
       microsecond = 0\<rparr>, ''Food'', 40)],
        balance := - 40,
        transaction_history := [(''Expense'', \<lparr>year = 2024, month = 6, day = 15, hour = 14, minute = 30, second = 0,
       microsecond = 0\<rparr>, ''Food'', 40)],
        category_budgets :=
          [(''Food'', 0), (''Housing'', 0), (''Transportation'', 0), (''Entertainment'', 0),
           (''Utilities'', 0), (''Other'', 0)]\<rparr>) =
       ((default_state
       \<lparr>expenses := [(\<lparr>year = 2024, month = 6, day = 15, hour = 14, minute = 30, second = 0,
       microsecond = 0\<rparr>, ''Food'', 40)],
        balance := - 40,
        transaction_history := [(''Expense'', \<lparr>year = 2024, month = 6, day = 15, hour = 14, minute = 30, second = 0,
       microsecond = 0\<rparr>, ''Food'', 40)],
        category_budgets :=
          [(''Food'', 0), (''Housing'', 0), (''Transportation'', 0), (''Entertainment'', 0),
           (''Utilities'', 0), (''Other'', 0)]\<rparr>)\<lparr>categories := remove1 ''Food'' (categories (default_state
       \<lparr>expenses := [(\<lparr>year = 2024, month = 6, day = 15, hour = 14, minute = 30, second = 0,
       microsecond = 0\<rparr>, ''Food'', 40)],
        balance := - 40,
        transaction_history := [(''Expense'', \<lparr>year = 2024, month = 6, day = 15, hour = 14, minute = 30, second = 0,
       microsecond = 0\<rparr>, ''Food'', 40)],
        category_budgets :=
          [(''Food'', 0), (''Housing'', 0), (''Transportation'', 0), (''Entertainment'', 0),
           (''Utilities'', 0), (''Other'', 0)]\<rparr>)),
          category_budgets := AList.delete ''Food'' (category_budgets (default_state
       \<lparr>expenses := [(\<lparr>year = 2024, month = 6, day = 15, hour = 14, minute = 30, second = 0,
       microsecond = 0\<rparr>, ''Food'', 40)],
        balance := - 40,
        transaction_history := [(''Expense'', \<lparr>year = 2024, month = 6, day = 15, hour = 14, minute = 30, second = 0,
       microsecond = 0\<rparr>, ''Food'', 40)],
        category_budgets :=
          [(''Food'', 0), (''Housing'', 0), (''Transportation'', 0), (''Entertainment'', 0),
           (''Utilities'', 0), (''Other'', 0)]\<rparr>))\<rparr>, [])
   \<and> ''Food'' \<notin> set (remove1 ''Food'' (categories (default_state
       \<lparr>expenses := [(\<lparr>year = 2024, month = 6, day = 15, hour = 14, minute = 30, second = 0,
       microsecond = 0\<rparr>, ''Food'', 40)],
        balance := - 40,
        transaction_history := [(''Expense'', \<lparr>year = 2024, month = 6, day = 15, hour = 14, minute = 30, second = 0,
       microsecond = 0\<rparr>, ''Food'', 40)],
        category_budgets :=
          [(''Food'', 0), (''Housing'', 0), (''Transportation'', 0), (''Entertainment'', 0),
           (''Utilities'', 0), (''Other'', 0)]\<rparr>)))
   \<and> ''Food'' \<notin> fst ` set (AList.delete ''Food'' (category_budgets (default_state
       \<lparr>expenses := [(\<lparr>year = 2024, month = 6, day = 15, hour = 14, minute = 30, second = 0,
       microsecond = 0\<rparr>, ''Food'', 40)],
        balance := - 40,
        transaction_history := [(''Expense'', \<lparr>year = 2024, month = 6, day = 15, hour = 14, minute = 30, second = 0,
       microsecond = 0\<rparr>, ''Food'', 40)],
        category_budgets :=
          [(''Food'', 0), (''Housing'', 0), (''Transportation'', 0), (''Entertainment'', 0),
           (''Utilities'', 0), (''Other'', 0)]\<rparr>)))
   \<and> expenses (fst (delete_category [''Food''] (default_state
       \<lparr>expenses := [(\<lparr>year = 2024, month = 6, day = 15, hour = 14, minute = 30, second = 0,
       microsecond = 0\<rparr>, ''Food'', 40)],
        balance := - 40,
        transaction_history := [(''Expense'', \<lparr>year = 2024, month = 6, day = 15, hour = 14, minute = 30, second = 0,
       microsecond = 0\<rparr>, ''Food'', 40)],
        category_budgets :=
          [(''Food'', 0), (''Housing'', 0), (''Transportation'', 0), (''Entertainment'', 0),
           (''Utilities'', 0), (''Other'', 0)]\<rparr>))) = expenses (default_state
       \<lparr>expenses := [(\<lparr>year = 2024, month = 6, day = 15, hour = 14, minute = 30, second = 0,
       microsecond = 0\<rparr>, ''Food'', 40)],
        balance := - 40,
        transaction_history := [(''Expense'', \<lparr>year = 2024, month = 6, day = 15, hour = 14, minute = 30, second = 0,
       microsecond = 0\<rparr>, ''Food'', 40)],
        category_budgets :=
          [(''Food'', 0), (''Housing'', 0), (''Transportation'', 0), (''Entertainment'', 0),
           (''Utilities'', 0), (''Other'', 0)]\<rparr>)
   \<and> update_summary (fst (delete_category [''Food''] (default_state
       \<lparr>expenses := [(\<lparr>year = 2024, month = 6, day = 15, hour = 14, minute = 30, second = 0,
       microsecond = 0\<rparr>, ''Food'', 40)],
        balance := - 40,
        transaction_history := [(''Expense'', \<lparr>year = 2024, month = 6, day = 15, hour = 14, minute = 30, second = 0,
       microsecond = 0\<rparr>, ''Food'', 40)],
        category_budgets :=
          [(''Food'', 0), (''Housing'', 0), (''Transportation'', 0), (''Entertainment'', 0),
           (''Utilities'', 0), (''Other'', 0)]\<rparr>))) = update_summary (default_state
       \<lparr>expenses := [(\<lparr>year = 2024, month = 6, day = 15, hour = 14, minute = 30, second = 0,
       microsecond = 0\<rparr>, ''Food'', 40)],
        balance := - 40,
        transaction_history := [(''Expense'', \<lparr>year = 2024, month = 6, day = 15, hour = 14, minute = 30, second = 0,
       microsecond = 0\<rparr>, ''Food'', 40)],
        category_budgets :=
          [(''Food'', 0), (''Housing'', 0), (''Transportation'', 0), (''Entertainment'', 0),
           (''Utilities'', 0), (''Other'', 0)]\<rparr>)
   \<and> (\<exists>report. display_status \<lparr>year = 2024, month = 6, day = 15, hour = 14, minute = 30, second = 0,
       microsecond = 0\<rparr> (fst (delete_category [''Food''] (default_state
       \<lparr>expenses := [(\<lparr>year = 2024, month = 6, day = 15, hour = 14, minute = 30, second = 0,
       microsecond = 0\<rparr>, ''Food'', 40)],
        balance := - 40,
        transaction_history := [(''Expense'', \<lparr>year = 2024, month = 6, day = 15, hour = 14, minute = 30, second = 0,
       microsecond = 0\<rparr>, ''Food'', 40)],
        category_budgets :=
          [(''Food'', 0), (''Housing'', 0), (''Transportation'', 0), (''Entertainment'', 0),
           (''Utilities'', 0), (''Other'', 0)]\<rparr>))) = Inr report
         \<and> ''Food'' \<notin> fst ` set (st_category_lines report))"
proof -
  let ?n = "\<lparr>year = 2024, month = 6, day = 15, hour = 14, minute = 30, second = 0,
       microsecond = 0\<rparr>"
  let ?t = "(default_state
       \<lparr>expenses := [(\<lparr>year = 2024, month = 6, day = 15, hour = 14, minute = 30, second = 0,
       microsecond = 0\<rparr>, ''Food'', 40)],
        balance := - 40,
        transaction_history := [(''Expense'', \<lparr>year = 2024, month = 6, day = 15, hour = 14, minute = 30, second = 0,
       microsecond = 0\<rparr>, ''Food'', 40)],
        category_budgets :=
          [(''Food'', 0), (''Housing'', 0), (''Transportation'', 0), (''Entertainment'', 0),
           (''Utilities'', 0), (''Other'', 0)]\<rparr>)"
  have b: "fsub 0 40 = - 40"
    by (simp add: float_eval)
  have e: "add_expense (\<lambda>x. if x = ''40'' then Some 40 else None) (\<lambda>x. None)
     ?n [''40'', ''Food'', []] (init no_file) = Inr (?t, [])"
    by (simp add: init_no_file add_expense_def default_state_def default_categories_def
        isdigit_def isdigit_char_def trim_history_def b)
  have r: "reachable (?t, no_file)"
    using r_first e by (rule r_add_expense)
  have c: "''Food'' \<in> set (categories ?t)"
    by (simp add: default_state_def default_categories_def)
  have n: "14 \<le> toordinal ?n"
    by (simp add: toordinal_def ymd2ord_def days_before_year_def days_before_month_def
        days_in_month_tab_def is_leap_def)
  from e conjI [OF r conjI [OF c conjI [OF n delete_category_orphans [OF r c n, of "[]"]]]]
  show ?thesis by (rule conjI)
qed

subsection \<open>The totals of the summary\<close>

lemma summary_loop_total:
  "fst (summary_loop es t ct) = foldl fadd t (map (\<lambda>e. snd (snd e)) es)"
  by (induction es t ct rule: summary_loop.induct) simp_all

lemma summary_loop_keys:
  "fst ` set (snd (summary_loop es t ct)) = fst ` set ct \<union> (\<lambda>e. fst (snd e)) ` set es"
  by (induction es t ct rule: summary_loop.induct) (auto simp: dom_update)

lemma summary_loop_distinct:
  "distinct (map fst ct) \<Longrightarrow> distinct (map fst (snd (summary_loop es t ct)))"
  by (induction es t ct rule: summary_loop.induct) (simp_all add: distinct_update)

lemma summary_loop_get:
  "dict_get (snd (summary_loop es t ct)) c 0 =
     foldl fadd (dict_get ct c 0)
       (map (\<lambda>e. snd (snd e)) (filter (\<lambda>e. fst (snd e) = c) es))"
  by (induction es t ct rule: summary_loop.induct)
     (auto simp: dict_get_def update_conv' split: option.splits)

lemma map_of_dict_get:
  "map_of al c = (if c \<in> fst ` set al then Some (dict_get al c 0) else None)"
  by (auto simp: dict_get_def map_of_eq_None_iff split: option.splits)

lemma sort_key_same_order:
  fixes f :: "'a \<Rightarrow> 'k::linorder"
  assumes "mset ys = mset xs"
    and "\<forall>k. filter (\<lambda>x. f x = k) ys = filter (\<lambda>x. f x = k) xs"
  shows "sort_key f ys = sort_key f xs"
proof (rule properties_for_sort_key)
  show "mset (sort_key f xs) = mset ys"
    using assms(1) by simp
  show "sorted (map f (sort_key f xs))"
    by simp
  fix k
  have "filter (\<lambda>x. f x = f k) (sort_key f xs) = filter (\<lambda>x. f x = f k) xs"
    by (rule sort_key_stable)
  also have "\<dots> = filter (\<lambda>x. f x = f k) ys"
    using assms(2) by simp
  finally show "filter (\<lambda>x. f k = f x) (sort_key f xs) = filter (\<lambda>x. f k = f x) ys"
    by (simp add: eq_commute [of "f k"])
qed

lemma update_summary_Some:
  assumes "expenses s \<noteq> []"
  shows "\<exists>r. update_summary s = Some r
       \<and> sm_lines r = sort_key (\<lambda>x. dt_key (fst x)) (expenses s)
       \<and> sm_total_spending r = foldl fadd 0 (map (\<lambda>e. snd (snd e)) (sm_lines r))
       \<and> distinct (map fst (sm_category_totals r))
       \<and> (\<forall>c. map_of (sm_category_totals r) c =
             (if c \<in> (\<lambda>e. fst (snd e)) ` set (expenses s)
              then Some (foldl fadd 0 (map (\<lambda>e. snd (snd e))
                           (filter (\<lambda>e. fst (snd e) = c) (sm_lines r))))
              else None))"
proof -
  let ?sorted = "sort_key (\<lambda>x. dt_key (fst x)) (expenses s)"
  obtain t ct where l: "summary_loop ?sorted 0 [] = (t, ct)"
    by (cases "summary_loop ?sorted 0 []")
  have t: "t = foldl fadd 0 (map (\<lambda>e. snd (snd e)) ?sorted)"
    using summary_loop_total [of ?sorted 0 "[]"] by (simp add: l)
  have d: "distinct (map fst ct)"
    using summary_loop_distinct [of "[]" ?sorted 0] by (simp add: l)
  have k: "fst ` set ct = (\<lambda>e. fst (snd e)) ` set (expenses s)"
    using summary_loop_keys [of ?sorted 0 "[]"] by (simp add: l)
  have g: "dict_get ct c 0 =
             foldl fadd 0 (map (\<lambda>e. snd (snd e)) (filter (\<lambda>e. fst (snd e) = c) ?sorted))"
    for c
    using summary_loop_get [of ?sorted 0 "[]" c] by (simp add: l dict_get_def)
  have u: "update_summary s =
             Some \<lparr>sm_lines = ?sorted, sm_category_totals = ct, sm_total_spending = t\<rparr>"
    using assms by (simp add: update_summary_def l)
  show ?thesis
    unfolding u using t d by (simp add: map_of_dict_get [of ct] k g)
qed

text \<open>
  Claim C4, as the code has it. When there are expenses, the summary reports as total
  spending the float sum of the amounts of all recorded expenses, added one after the
  other in the order of their dates (expenses of one date in the order they were
  recorded), and for every category that has an expense the float sum, in that order,
  of the amounts of its expenses, each category once. A state whose expenses are the same
  records in another order, with the expenses of any one date still in the same order,
  gets the same total and the same category totals.
\<close>

theorem update_summary_totals:
  assumes "expenses s \<noteq> []" and "mset (expenses s') = mset (expenses s)"
    and "\<forall>k. filter (\<lambda>x. dt_key (fst x) = k) (expenses s')
             = filter (\<lambda>x. dt_key (fst x) = k) (expenses s)"
  shows "\<exists>r r'. update_summary s = Some r \<and> update_summary s' = Some r'
       \<and> sm_total_spending r =
           foldl fadd 0 (map (\<lambda>e. snd (snd e))
             (sort_key (\<lambda>x. dt_key (fst x)) (expenses s)))
       \<and> sm_total_spending r' = sm_total_spending r
       \<and> distinct (map fst (sm_category_totals r))
       \<and> (\<forall>c. map_of (sm_category_totals r) c =
             (if c \<in> (\<lambda>e. fst (snd e)) ` set (expenses s)
              then Some (foldl fadd 0 (map (\<lambda>e. snd (snd e))
                           (filter (\<lambda>e. fst (snd e) = c)
                              (sort_key (\<lambda>x. dt_key (fst x)) (expenses s)))))
              else None))
       \<and> map_of (sm_category_totals r') = map_of (sm_category_totals r)"
proof -
  from assms(1,2) have ne: "expenses s' \<noteq> []"
    by auto
  have srt: "sort_key (\<lambda>x. dt_key (fst x)) (expenses s')
               = sort_key (\<lambda>x. dt_key (fst x)) (expenses s)"
    using assms(2,3) by (rule sort_key_same_order)
  have st: "set (expenses s') = set (expenses s)"
    using assms(2) by (rule mset_eq_setD)
  obtain r where r: "update_summary s = Some r"
      "sm_lines r = sort_key (\<lambda>x. dt_key (fst x)) (expenses s)"
      "sm_total_spending r = foldl fadd 0 (map (\<lambda>e. snd (snd e)) (sm_lines r))"
      "distinct (map fst (sm_category_totals r))"
      "\<And>c. map_of (sm_category_totals r) c =
             (if c \<in> (\<lambda>e. fst (snd e)) ` set (expenses s)
              then Some (foldl fadd 0 (map (\<lambda>e. snd (snd e))
                           (filter (\<lambda>e. fst (snd e) = c) (sm_lines r))))
              else None)"
    using update_summary_Some [OF assms(1)] by blast
  obtain r' where r': "update_summary s' = Some r'"
      "sm_lines r' = sort_key (\<lambda>x. dt_key (fst x)) (expenses s')"
      "sm_total_spending r' = foldl fadd 0 (map (\<lambda>e. snd (snd e)) (sm_lines r'))"
      "\<And>c. map_of (sm_category_totals r') c =
             (if c \<in> (\<lambda>e. fst (snd e)) ` set (expenses s')
              then Some (foldl fadd 0 (map (\<lambda>e. snd (snd e))
                           (filter (\<lambda>e. fst (snd e) = c) (sm_lines r'))))
              else None)"
    using update_summary_Some [OF ne] by blast
  have lines: "sm_lines r' = sm_lines r"
    by (simp add: r(2) r'(2) srt)
  have tot: "sm_total_spending r' = sm_total_spending r"
    by (simp add: r(3) r'(3) lines)
  have "map_of (sm_category_totals r') c = map_of (sm_category_totals r) c" for c
    by (simp add: r(5) r'(4) st lines)
  then have maps: "map_of (sm_category_totals r') = map_of (sm_category_totals r)"
    by (rule ext)
  have t1: "sm_total_spending r =
           foldl fadd 0 (map (\<lambda>e. snd (snd e))
             (sort_key (\<lambda>x. dt_key (fst x)) (expenses s)))"
    by (simp add: r(3) r(2))
  have t2: "\<forall>c. map_of (sm_category_totals r) c =
             (if c \<in> (\<lambda>e. fst (snd e)) ` set (expenses s)
              then Some (foldl fadd 0 (map (\<lambda>e. snd (snd e))
                           (filter (\<lambda>e. fst (snd e) = c)
                              (sort_key (\<lambda>x. dt_key (fst x)) (expenses s)))))
              else None)"
    using r(5) by (simp add: r(2))
  from r(1) r'(1) t1 tot r(4) t2 maps show ?thesis
    by blast
qed

theorem update_summary_totals_witness:
  "expenses (default_state\<lparr>expenses :=
      [(\<lparr>year = 2024, month = 1, day = 10, hour = 0, minute = 0, second = 0,
           microsecond = 0\<rparr>, ''Food'', 50),
       (\<lparr>year = 2024, month = 1, day = 15, hour = 0, minute = 0, second = 0,
           microsecond = 0\<rparr>, ''Transportation'', 30),
       (\<lparr>year = 2024, month = 1, day = 10, hour = 0, minute = 0, second = 0,
           microsecond = 0\<rparr>, ''Other'', 5)]\<rparr>) \<noteq> []
   \<and> mset (expenses (default_state\<lparr>expenses :=
      [(\<lparr>year = 2024, month = 1, day = 15, hour = 0, minute = 0, second = 0,
           microsecond = 0\<rparr>, ''Transportation'', 30),
       (\<lparr>year = 2024, month = 1, day = 10, hour = 0, minute = 0, second = 0,
           microsecond = 0\<rparr>, ''Food'', 50),
       (\<lparr>year = 2024, month = 1, day = 10, hour = 0, minute = 0, second = 0,
           microsecond = 0\<rparr>, ''Other'', 5)]\<rparr>)) = mset (expenses (default_state\<lparr>expenses :=
      [(\<lparr>year = 2024, month = 1, day = 10, hour = 0, minute = 0, second = 0,
           microsecond = 0\<rparr>, ''Food'', 50),
       (\<lparr>year = 2024, month = 1, day = 15, hour = 0, minute = 0, second = 0,
           microsecond = 0\<rparr>, ''Transportation'', 30),
       (\<lparr>year = 2024, month = 1, day = 10, hour = 0, minute = 0, second = 0,
           microsecond = 0\<rparr>, ''Other'', 5)]\<rparr>))
   \<and> (\<forall>k. filter (\<lambda>x. dt_key (fst x) = k) (expenses (default_state\<lparr>expenses :=
      [(\<lparr>year = 2024, month = 1, day = 15, hour = 0, minute = 0, second = 0,
           microsecond = 0\<rparr>, ''Transportation'', 30),
       (\<lparr>year = 2024, month = 1, day = 10, hour = 0, minute = 0, second = 0,
           microsecond = 0\<rparr>, ''Food'', 50),
       (\<lparr>year = 2024, month = 1, day = 10, hour = 0, minute = 0, second = 0,
           microsecond = 0\<rparr>, ''Other'', 5)]\<rparr>))
            = filter (\<lambda>x. dt_key (fst x) = k) (expenses (default_state\<lparr>expenses :=
      [(\<lparr>year = 2024, month = 1, day = 10, hour = 0, minute = 0, second = 0,
           microsecond = 0\<rparr>, ''Food'', 50),
       (\<lparr>year = 2024, month = 1, day = 15, hour = 0, minute = 0, second = 0,
           microsecond = 0\<rparr>, ''Transportation'', 30),
       (\<lparr>year = 2024, month = 1, day = 10, hour = 0, minute = 0, second = 0,
           microsecond = 0\<rparr>, ''Other'', 5)]\<rparr>)))
   \<and> (\<exists>r r'. update_summary (default_state\<lparr>expenses :=
      [(\<lparr>year = 2024, month = 1, day = 10, hour = 0, minute = 0, second = 0,
           microsecond = 0\<rparr>, ''Food'', 50),
       (\<lparr>year = 2024, month = 1, day = 15, hour = 0, minute = 0, second = 0,
           microsecond = 0\<rparr>, ''Transportation'', 30),
       (\<lparr>year = 2024, month = 1, day = 10, hour = 0, minute = 0, second = 0,
           microsecond = 0\<rparr>, ''Other'', 5)]\<rparr>) = Some r \<and> update_summary (default_state\<lparr>expenses :=
      [(\<lparr>year = 2024, month = 1, day = 15, hour = 0, minute = 0, second = 0,
           microsecond = 0\<rparr>, ''Transportation'', 30),
       (\<lparr>year = 2024, month = 1, day = 10, hour = 0, minute = 0, second = 0,
           microsecond = 0\<rparr>, ''Food'', 50),
       (\<lparr>year = 2024, month = 1, day = 10, hour = 0, minute = 0, second = 0,
           microsecond = 0\<rparr>, ''Other'', 5)]\<rparr>) = Some r'
       \<and> sm_total_spending r =
           foldl fadd 0 (map (\<lambda>e. snd (snd e))
             (sort_key (\<lambda>x. dt_key (fst x)) (expenses (default_state\<lparr>expenses :=
      [(\<lparr>year = 2024, month = 1, day = 10, hour = 0, minute = 0, second = 0,
           microsecond = 0\<rparr>, ''Food'', 50),
       (\<lparr>year = 2024, month = 1, day = 15, hour = 0, minute = 0, second = 0,
           microsecond = 0\<rparr>, ''Transportation'', 30),
       (\<lparr>year = 2024, month = 1, day = 10, hour = 0, minute = 0, second = 0,
           microsecond = 0\<rparr>, ''Other'', 5)]\<rparr>))))
       \<and> sm_total_spending r' = sm_total_spending r
       \<and> distinct (map fst (sm_category_totals r))
       \<and> (\<forall>c. map_of (sm_category_totals r) c =
             (if c \<in> (\<lambda>e. fst (snd e)) ` set (expenses (default_state\<lparr>expenses :=
      [(\<lparr>year = 2024, month = 1, day = 10, hour = 0, minute = 0, second = 0,
           microsecond = 0\<rparr>, ''Food'', 50),
       (\<lparr>year = 2024, month = 1, day = 15, hour = 0, minute = 0, second = 0,
           microsecond = 0\<rparr>, ''Transportation'', 30),
       (\<lparr>year = 2024, month = 1, day = 10, hour = 0, minute = 0, second = 0,
           microsecond = 0\<rparr>, ''Other'', 5)]\<rparr>))
              then Some (foldl fadd 0 (map (\<lambda>e. snd (snd e))
                           (filter (\<lambda>e. fst (snd e) = c)
                              (sort_key (\<lambda>x. dt_key (fst x)) (expenses (default_state\<lparr>expenses :=
      [(\<lparr>year = 2024, month = 1, day = 10, hour = 0, minute = 0, second = 0,
           microsecond = 0\<rparr>, ''Food'', 50),
       (\<lparr>year = 2024, month = 1, day = 15, hour = 0, minute = 0, second = 0,
           microsecond = 0\<rparr>, ''Transportation'', 30),
       (\<lparr>year = 2024, month = 1, day = 10, hour = 0, minute = 0, second = 0,
           microsecond = 0\<rparr>, ''Other'', 5)]\<rparr>))))))
              else None))
       \<and> map_of (sm_category_totals r') = map_of (sm_category_totals r))
   \<and> update_summary (default_state\<lparr>expenses :=
      [(\<lparr>year = 2024, month = 1, day = 15, hour = 0, minute = 0, second = 0,
           microsecond = 0\<rparr>, ''Transportation'', 30),
       (\<lparr>year = 2024, month = 1, day = 10, hour = 0, minute = 0, second = 0,
           microsecond = 0\<rparr>, ''Food'', 50),
       (\<lparr>year = 2024, month = 1, day = 10, hour = 0, minute = 0, second = 0,
           microsecond = 0\<rparr>, ''Other'', 5)]\<rparr>) =
       Some \<lparr>sm_lines =
               [(\<lparr>year = 2024, month = 1, day = 10, hour = 0, minute = 0, second = 0,
           microsecond = 0\<rparr>, ''Food'', 50),
                (\<lparr>year = 2024, month = 1, day = 10, hour = 0, minute = 0, second = 0,
           microsecond = 0\<rparr>, ''Other'', 5),
                (\<lparr>year = 2024, month = 1, day = 15, hour = 0, minute = 0, second = 0,
           microsecond = 0\<rparr>, ''Transportation'', 30)],
             sm_category_totals = [(''Food'', 50), (''Other'', 5), (''Transportation'', 30)],
             sm_total_spending = 85\<rparr>"
proof -
  let ?a = "(default_state\<lparr>expenses :=
      [(\<lparr>year = 2024, month = 1, day = 10, hour = 0, minute = 0, second = 0,
           microsecond = 0\<rparr>, ''Food'', 50),
       (\<lparr>year = 2024, month = 1, day = 15, hour = 0, minute = 0, second = 0,
           microsecond = 0\<rparr>, ''Transportation'', 30),
       (\<lparr>year = 2024, month = 1, day = 10, hour = 0, minute = 0, second = 0,
           microsecond = 0\<rparr>, ''Other'', 5)]\<rparr>)"
  let ?b = "(default_state\<lparr>expenses :=
      [(\<lparr>year = 2024, month = 1, day = 15, hour = 0, minute = 0, second = 0,
           microsecond = 0\<rparr>, ''Transportation'', 30),
       (\<lparr>year = 2024, month = 1, day = 10, hour = 0, minute = 0, second = 0,
           microsecond = 0\<rparr>, ''Food'', 50),
       (\<lparr>year = 2024, month = 1, day = 10, hour = 0, minute = 0, second = 0,
           microsecond = 0\<rparr>, ''Other'', 5)]\<rparr>)"
  have h1: "expenses ?a \<noteq> []"
    by simp
  have h2: "mset (expenses ?b) = mset (expenses ?a)"
    by simp
  have h3: "\<forall>k. filter (\<lambda>x. dt_key (fst x) = k) (expenses ?b)
            = filter (\<lambda>x. dt_key (fst x) = k) (expenses ?a)"
    by (simp add: dt_key_def)
  have a: "fadd 0 50 = 50" "fadd 50 5 = 55" "fadd 55 30 = 85" "fadd 0 5 = 5" "fadd 0 30 = 30"
    by (simp_all add: float_eval)
  have v: "update_summary (default_state\<lparr>expenses :=
      [(\<lparr>year = 2024, month = 1, day = 15, hour = 0, minute = 0, second = 0,
           microsecond = 0\<rparr>, ''Transportation'', 30),
       (\<lparr>year = 2024, month = 1, day = 10, hour = 0, minute = 0, second = 0,
           microsecond = 0\<rparr>, ''Food'', 50),
       (\<lparr>year = 2024, month = 1, day = 10, hour = 0, minute = 0, second = 0,
           microsecond = 0\<rparr>, ''Other'', 5)]\<rparr>) =
       Some \<lparr>sm_lines =
               [(\<lparr>year = 2024, month = 1, day = 10, hour = 0, minute = 0, second = 0,
           microsecond = 0\<rparr>, ''Food'', 50),
                (\<lparr>year = 2024, month = 1, day = 10, hour = 0, minute = 0, second = 0,
           microsecond = 0\<rparr>, ''Other'', 5),
                (\<lparr>year = 2024, month = 1, day = 15, hour = 0, minute = 0, second = 0,
           microsecond = 0\<rparr>, ''Transportation'', 30)],
             sm_category_totals = [(''Food'', 50), (''Other'', 5), (''Transportation'', 30)],
             sm_total_spending = 85\<rparr>"
    by (simp add: update_summary_def dt_key_def dict_get_def a)
  from h1 conjI [OF h2 conjI [OF h3 conjI [OF update_summary_totals [OF h1 h2 h3] v]]]
  show ?thesis by (rule conjI)
qed

text \<open>
  The claim as it was stated holds the total to be the same for every order in which the
  expenses were recorded. Float addition rounds, so it is not: for three expenses of one
  date with the amounts \<open>float("0.282")\<close>, \<open>float("0.3")\<close> and \<open>float("0.093")\<close>,
  written below as the fractions these doubles are, the summary reports the total
  0.6749999999999999 when they were recorded in this order and 0.675 when they were
  recorded in the opposite order.
\<close>

theorem update_summary_order_counterexample:
  "mset (expenses (default_state\<lparr>expenses :=
        [(\<lparr>year = 2024, month = 1, day = 10, hour = 0, minute = 0, second = 0,
           microsecond = 0\<rparr>, ''Food'', 3350678122763649 / 36028797018963968),
         (\<lparr>year = 2024, month = 1, day = 10, hour = 0, minute = 0, second = 0,
           microsecond = 0\<rparr>, ''Food'', 5404319552844595 / 18014398509481984),
         (\<lparr>year = 2024, month = 1, day = 10, hour = 0, minute = 0, second = 0,
           microsecond = 0\<rparr>, ''Food'', 5080060379673919 / 18014398509481984)]\<rparr>)) = mset (expenses (default_state\<lparr>expenses :=
        [(\<lparr>year = 2024, month = 1, day = 10, hour = 0, minute = 0, second = 0,
           microsecond = 0\<rparr>, ''Food'', 5080060379673919 / 18014398509481984),
         (\<lparr>year = 2024, month = 1, day = 10, hour = 0, minute = 0, second = 0,
           microsecond = 0\<rparr>, ''Food'', 5404319552844595 / 18014398509481984),
         (\<lparr>year = 2024, month = 1, day = 10, hour = 0, minute = 0, second = 0,
           microsecond = 0\<rparr>, ''Food'', 3350678122763649 / 36028797018963968)]\<rparr>))
   \<and> map_option sm_total_spending (update_summary (default_state\<lparr>expenses :=
        [(\<lparr>year = 2024, month = 1, day = 10, hour = 0, minute = 0, second = 0,
           microsecond = 0\<rparr>, ''Food'', 5080060379673919 / 18014398509481984),
         (\<lparr>year = 2024, month = 1, day = 10, hour = 0, minute = 0, second = 0,
           microsecond = 0\<rparr>, ''Food'', 5404319552844595 / 18014398509481984),
         (\<lparr>year = 2024, month = 1, day = 10, hour = 0, minute = 0, second = 0,
           microsecond = 0\<rparr>, ''Food'', 3350678122763649 / 36028797018963968)]\<rparr>))
       = Some (6079859496950169 / 9007199254740992)
   \<and> map_option sm_total_spending (update_summary (default_state\<lparr>expenses :=
        [(\<lparr>year = 2024, month = 1, day = 10, hour = 0, minute = 0, second = 0,
           microsecond = 0\<rparr>, ''Food'', 3350678122763649 / 36028797018963968),
         (\<lparr>year = 2024, month = 1, day = 10, hour = 0, minute = 0, second = 0,
           microsecond = 0\<rparr>, ''Food'', 5404319552844595 / 18014398509481984),
         (\<lparr>year = 2024, month = 1, day = 10, hour = 0, minute = 0, second = 0,
           microsecond = 0\<rparr>, ''Food'', 5080060379673919 / 18014398509481984)]\<rparr>))
       = Some (3039929748475085 / 4503599627370496)
   \<and> (6079859496950169 / 9007199254740992 :: real) \<noteq> 3039929748475085 / 4503599627370496"
proof -
  have a: "fadd (fadd (fadd 0 (5080060379673919 / 18014398509481984)) (5404319552844595 / 18014398509481984)) (3350678122763649 / 36028797018963968) = 6079859496950169 / 9007199254740992"
    by (simp add: float_eval)
  have b: "fadd (fadd (fadd 0 (3350678122763649 / 36028797018963968)) (5404319552844595 / 18014398509481984)) (5080060379673919 / 18014398509481984) = 3039929748475085 / 4503599627370496"
    by (simp add: float_eval)
  have m: "mset (expenses (default_state\<lparr>expenses :=
        [(\<lparr>year = 2024, month = 1, day = 10, hour = 0, minute = 0, second = 0,
           microsecond = 0\<rparr>, ''Food'', 3350678122763649 / 36028797018963968),
         (\<lparr>year = 2024, month = 1, day = 10, hour = 0, minute = 0, second = 0,
           microsecond = 0\<rparr>, ''Food'', 5404319552844595 / 18014398509481984),
         (\<lparr>year = 2024, month = 1, day = 10, hour = 0, minute = 0, second = 0,
           microsecond = 0\<rparr>, ''Food'', 5080060379673919 / 18014398509481984)]\<rparr>)) = mset (expenses (default_state\<lparr>expenses :=
        [(\<lparr>year = 2024, month = 1, day = 10, hour = 0, minute = 0, second = 0,
           microsecond = 0\<rparr>, ''Food'', 5080060379673919 / 18014398509481984),
         (\<lparr>year = 2024, month = 1, day = 10, hour = 0, minute = 0, second = 0,
           microsecond = 0\<rparr>, ''Food'', 5404319552844595 / 18014398509481984),
         (\<lparr>year = 2024, month = 1, day = 10, hour = 0, minute = 0, second = 0,
           microsecond = 0\<rparr>, ''Food'', 3350678122763649 / 36028797018963968)]\<rparr>))"
    by simp
  have ta: "map_option sm_total_spending (update_summary (default_state\<lparr>expenses :=
        [(\<lparr>year = 2024, month = 1, day = 10, hour = 0, minute = 0, second = 0,
           microsecond = 0\<rparr>, ''Food'', 5080060379673919 / 18014398509481984),
         (\<lparr>year = 2024, month = 1, day = 10, hour = 0, minute = 0, second = 0,
           microsecond = 0\<rparr>, ''Food'', 5404319552844595 / 18014398509481984),
         (\<lparr>year = 2024, month = 1, day = 10, hour = 0, minute = 0, second = 0,
           microsecond = 0\<rparr>, ''Food'', 3350678122763649 / 36028797018963968)]\<rparr>))
       = Some (fadd (fadd (fadd 0 (5080060379673919 / 18014398509481984)) (5404319552844595 / 18014398509481984)) (3350678122763649 / 36028797018963968))"
    by (simp add: update_summary_def dt_key_def split: prod.splits)
  have tb: "map_option sm_total_spending (update_summary (default_state\<lparr>expenses :=
        [(\<lparr>year = 2024, month = 1, day = 10, hour = 0, minute = 0, second = 0,
           microsecond = 0\<rparr>, ''Food'', 3350678122763649 / 36028797018963968),
         (\<lparr>year = 2024, month = 1, day = 10, hour = 0, minute = 0, second = 0,
           microsecond = 0\<rparr>, ''Food'', 5404319552844595 / 18014398509481984),
         (\<lparr>year = 2024, month = 1, day = 10, hour = 0, minute = 0, second = 0,
           microsecond = 0\<rparr>, ''Food'', 5080060379673919 / 18014398509481984)]\<rparr>))
       = Some (fadd (fadd (fadd 0 (3350678122763649 / 36028797018963968)) (5404319552844595 / 18014398509481984)) (5080060379673919 / 18014398509481984))"
    by (simp add: update_summary_def dt_key_def split: prod.splits)
  have n: "(6079859496950169 / 9007199254740992 :: real) \<noteq> 3039929748475085 / 4503599627370496"
    by simp
  from m ta [unfolded a] tb [unfolded b] n show ?thesis
    by (intro conjI)
qed

subsection \<open>The window of the status display\<close>

lemma display_status_spending:
  assumes "0 < budget s" and "interval_start (budget_interval s) now = Inr (Some start)"
  shows "\<exists>report. display_status now s = Inr report
       \<and> st_spending report =
           Some (spent_between start now (expenses s),
                 fsub (budget s) (spent_between start now (expenses s)))"
  using assms by (simp add: display_status_def Let_def)

lemma interval_start_day:
  "lower interval = ''day'' \<Longrightarrow> interval_start interval now = Inr (Some (midnight now))"
  by (simp add: interval_start_def)

lemma interval_start_month:
  "lower interval = ''month'' \<Longrightarrow> interval_start interval now = Inr (Some (now\<lparr>day := 1\<rparr>))"
  by (simp add: interval_start_def)

lemma interval_start_year:
  "lower interval = ''year'' \<Longrightarrow>
   interval_start interval now = Inr (Some (now\<lparr>month := 1, day := 1\<rparr>))"
  by (simp add: interval_start_def)

lemma interval_start_week:
  "lower interval = ''week'' \<Longrightarrow> sub_days now (weekday now) = Inr week_start \<Longrightarrow>
   interval_start interval now = Inr (Some (midnight week_start))"
  by (simp add: interval_start_def)

lemma interval_start_bi_weekly:
  "lower interval = ''bi-weekly'' \<Longrightarrow>
   sub_days now (if (days_since now epoch_monday div 7) mod 2 \<noteq> 0 then weekday now + 7
                 else weekday now) = Inr bi_weekly_start \<Longrightarrow>
   interval_start interval now = Inr (Some (midnight bi_weekly_start))"
  by (simp add: interval_start_def Let_def)

text \<open>
  Claim C5. The window of the status display starts, for the intervals Day, Week and
  Bi-Weekly, at midnight of the first day of the interval; for Month and Year it starts
  on the first day of the interval at the time of day the clock shows, since only the
  day (and month) of \<open>now\<close> are replaced. A run that sets the budget to 100, keeps the
  interval Month, and records an expense of 40 on the date line \<open>2024-06-01\<close> reaches a
  state for which the status display of 15 June 2024, 14:30, reports spending 0 and 100
  remaining, while the expenses from the start of that month to \<open>now\<close> sum to 40.
\<close>

theorem display_status_month_not_from_midnight:
  "add_expense (\<lambda>x. if x = ''100'' then Some 100 else if x = ''40'' then Some 40 else None)
     (\<lambda>x. if x = ''2024-06-01''
          then Some \<lparr>year = 2024, month = 6, day = 1, hour = 0, minute = 0, second = 0,
           microsecond = 0\<rparr>
          else None)
     \<lparr>year = 2024, month = 6, day = 3, hour = 9, minute = 0, second = 0,
        microsecond = 0\<rparr> [''40'', ''Food'', ''2024-06-01'']
     (fst (set_budget (\<lambda>x. if x = ''100'' then Some 100 else if x = ''40'' then Some 40 else None) [''100''] (init no_file)))
   = Inr ((default_state
        \<lparr>expenses := [(\<lparr>year = 2024, month = 6, day = 1, hour = 0, minute = 0, second = 0,
           microsecond = 0\<rparr>, ''Food'', 40)],
         balance := - 40,
         transaction_history := [(''Expense'', \<lparr>year = 2024, month = 6, day = 1, hour = 0, minute = 0, second = 0,
           microsecond = 0\<rparr>, ''Food'', 40)],
         budget := 100,
         category_budgets :=
           [(''Food'', 0), (''Housing'', 0), (''Transportation'', 0), (''Entertainment'', 0),
            (''Utilities'', 0), (''Other'', 0)]\<rparr>), [])
   \<and> budget_interval (default_state
        \<lparr>expenses := [(\<lparr>year = 2024, month = 6, day = 1, hour = 0, minute = 0, second = 0,
           microsecond = 0\<rparr>, ''Food'', 40)],
         balance := - 40,
         transaction_history := [(''Expense'', \<lparr>year = 2024, month = 6, day = 1, hour = 0, minute = 0, second = 0,
           microsecond = 0\<rparr>, ''Food'', 40)],
         budget := 100,
         category_budgets :=
           [(''Food'', 0), (''Housing'', 0), (''Transportation'', 0), (''Entertainment'', 0),
            (''Utilities'', 0), (''Other'', 0)]\<rparr>) = ''Month''
   \<and> budget (default_state
        \<lparr>expenses := [(\<lparr>year = 2024, month = 6, day = 1, hour = 0, minute = 0, second = 0,
           microsecond = 0\<rparr>, ''Food'', 40)],
         balance := - 40,
         transaction_history := [(''Expense'', \<lparr>year = 2024, month = 6, day = 1, hour = 0, minute = 0, second = 0,
           microsecond = 0\<rparr>, ''Food'', 40)],
         budget := 100,
         category_budgets :=
           [(''Food'', 0), (''Housing'', 0), (''Transportation'', 0), (''Entertainment'', 0),
            (''Utilities'', 0), (''Other'', 0)]\<rparr>) = 100
   \<and> expenses (default_state
        \<lparr>expenses := [(\<lparr>year = 2024, month = 6, day = 1, hour = 0, minute = 0, second = 0,
           microsecond = 0\<rparr>, ''Food'', 40)],
         balance := - 40,
         transaction_history := [(''Expense'', \<lparr>year = 2024, month = 6, day = 1, hour = 0, minute = 0, second = 0,
           microsecond = 0\<rparr>, ''Food'', 40)],
         budget := 100,
         category_budgets :=
           [(''Food'', 0), (''Housing'', 0), (''Transportation'', 0), (''Entertainment'', 0),
            (''Utilities'', 0), (''Other'', 0)]\<rparr>) = [(\<lparr>year = 2024, month = 6, day = 1, hour = 0, minute = 0, second = 0,
           microsecond = 0\<rparr>, ''Food'', 40)]
   \<and> (\<exists>report. display_status \<lparr>year = 2024, month = 6, day = 15, hour = 14, minute = 30, second = 0,
        microsecond = 0\<rparr> (default_state
        \<lparr>expenses := [(\<lparr>year = 2024, month = 6, day = 1, hour = 0, minute = 0, second = 0,
           microsecond = 0\<rparr>, ''Food'', 40)],
         balance := - 40,
         transaction_history := [(''Expense'', \<lparr>year = 2024, month = 6, day = 1, hour = 0, minute = 0, second = 0,
           microsecond = 0\<rparr>, ''Food'', 40)],
         budget := 100,
         category_budgets :=
           [(''Food'', 0), (''Housing'', 0), (''Transportation'', 0), (''Entertainment'', 0),
            (''Utilities'', 0), (''Other'', 0)]\<rparr>) = Inr report
         \<and> st_spending report = Some (0, 100))
   \<and> spent_between (midnight (\<lparr>year = 2024, month = 6, day = 15, hour = 14, minute = 30, second = 0,
        microsecond = 0\<rparr>\<lparr>day := 1\<rparr>))
        \<lparr>year = 2024, month = 6, day = 15, hour = 14, minute = 30, second = 0,
        microsecond = 0\<rparr>
        [(\<lparr>year = 2024, month = 6, day = 1, hour = 0, minute = 0, second = 0,
           microsecond = 0\<rparr>, ''Food'', 40)] = 40"
proof -
  let ?t = "(default_state
        \<lparr>expenses := [(\<lparr>year = 2024, month = 6, day = 1, hour = 0, minute = 0, second = 0,
           microsecond = 0\<rparr>, ''Food'', 40)],
         balance := - 40,
         transaction_history := [(''Expense'', \<lparr>year = 2024, month = 6, day = 1, hour = 0, minute = 0, second = 0,
           microsecond = 0\<rparr>, ''Food'', 40)],
         budget := 100,
         category_budgets :=
           [(''Food'', 0), (''Housing'', 0), (''Transportation'', 0), (''Entertainment'', 0),
            (''Utilities'', 0), (''Other'', 0)]\<rparr>)"
  have a: "fsub 0 40 = - 40" "fsub 100 0 = 100" "fadd 0 40 = 40"
    by (simp_all add: float_eval)
  have e: "add_expense (\<lambda>x. if x = ''100'' then Some 100 else if x = ''40'' then Some 40 else None)
     (\<lambda>x. if x = ''2024-06-01''
          then Some \<lparr>year = 2024, month = 6, day = 1, hour = 0, minute = 0, second = 0,
           microsecond = 0\<rparr>
          else None)
     \<lparr>year = 2024, month = 6, day = 3, hour = 9, minute = 0, second = 0,
        microsecond = 0\<rparr> [''40'', ''Food'', ''2024-06-01'']
     (fst (set_budget (\<lambda>x. if x = ''100'' then Some 100 else if x = ''40'' then Some 40 else None) [''100''] (init no_file)))
   = Inr (?t, [])"
    by (simp add: init_no_file add_expense_def default_state_def default_categories_def
        isdigit_def isdigit_char_def trim_history_def a)
  have l: "lower ''Month'' = ''month''"
    by (simp add: lower_def lower_char_def isupper_char_def char_of_eq_iff)
  have w: "interval_start ''Month'' \<lparr>year = 2024, month = 6, day = 15, hour = 14, minute = 30, second = 0,
        microsecond = 0\<rparr> = Inr (Some (\<lparr>year = 2024, month = 6, day = 15, hour = 14, minute = 30, second = 0,
        microsecond = 0\<rparr>\<lparr>day := 1\<rparr>))"
    by (simp add: interval_start_def l)
  have d: "display_status \<lparr>year = 2024, month = 6, day = 15, hour = 14, minute = 30, second = 0,
        microsecond = 0\<rparr> ?t = Inr
             \<lparr>st_balance = - 40, st_total_budget = Some (''Month'', 100),
              st_spending = Some (0, 100), st_category_lines = category_lines ?t,
              st_transactions = [(''Expense'', \<lparr>year = 2024, month = 6, day = 1, hour = 0, minute = 0, second = 0,
           microsecond = 0\<rparr>, ''Food'', 40)]\<rparr>"
    by (simp add: display_status_def default_state_def w spent_between_def dt_le_def
        dt_key_def a)
  have x: "\<exists>report. display_status \<lparr>year = 2024, month = 6, day = 15, hour = 14, minute = 30, second = 0,
        microsecond = 0\<rparr> ?t = Inr report
         \<and> st_spending report = Some (0, 100)"
    unfolding d by simp
  have m: "spent_between (midnight (\<lparr>year = 2024, month = 6, day = 15, hour = 14, minute = 30, second = 0,
        microsecond = 0\<rparr>\<lparr>day := 1\<rparr>))
        \<lparr>year = 2024, month = 6, day = 15, hour = 14, minute = 30, second = 0,
        microsecond = 0\<rparr>
        [(\<lparr>year = 2024, month = 6, day = 1, hour = 0, minute = 0, second = 0,
           microsecond = 0\<rparr>, ''Food'', 40)] = 40"
    by (simp add: spent_between_def midnight_def dt_le_def dt_key_def a)
  have b: "budget_interval ?t = ''Month''" "budget ?t = 100"
      "expenses ?t = [(\<lparr>year = 2024, month = 6, day = 1, hour = 0, minute = 0, second = 0,
           microsecond = 0\<rparr>, ''Food'', 40)]"
    by (simp_all add: default_state_def)
  from e b x m show ?thesis
    by (intro conjI)
qed

end
